theory Spec2Isabelle
  imports Complex_Main
begin

section \<open>Basketball arena: physics, shooting and scoring of \<open>src/src/hw5.js\<close>\<close>

text \<open>
  The simulation keeps one global object \<open>gameState\<close>; every function of the physics and
  input systems reads and mutates it. The model passes that state explicitly. JavaScript
  numbers are modelled as \<^typ>\<open>real\<close> (exact arithmetic), vectors of three.js as triples
  of reals. The one comparison that rounding decides at states the game reaches, the one
  between the two distances in shootBall, is made on a distance function that is a
  parameter of the model. Calls into the user interface, the particle system and the net
  animation do not write \<open>gameState\<close> and are left out.
\<close>

subsection \<open>Constants (hw5.js, lines 20-46)\<close>

definition COURT_LENGTH :: real where "COURT_LENGTH = 28"
definition COURT_WIDTH :: real where "COURT_WIDTH = 15"
definition COURT_FLOOR_Y :: real where "COURT_FLOOR_Y = 0"
definition LINES_Y_OFFSET :: real where "LINES_Y_OFFSET = 0.01"
definition RIM_Y :: real where "RIM_Y = 3.05"
definition RIM_RADIUS :: real where "RIM_RADIUS = 0.225"
definition BACKBOARD_WIDTH :: real where "BACKBOARD_WIDTH = 1.8"
definition BACKBOARD_HEIGHT :: real where "BACKBOARD_HEIGHT = 1.05"
definition BACKBOARD_DIST_FROM_BASELINE :: real where "BACKBOARD_DIST_FROM_BASELINE = 1.2"
definition POLE_RADIUS :: real where "POLE_RADIUS = 0.15"
definition BALL_RADIUS :: real where "BALL_RADIUS = 0.1213"
definition GRAVITY :: real where "GRAVITY = - 9.8"
definition BALL_MOVEMENT_SPEED :: real where "BALL_MOVEMENT_SPEED = 0.08"
definition MIN_SHOT_POWER :: real where "MIN_SHOT_POWER = 0.1"
definition MAX_SHOT_POWER :: real where "MAX_SHOT_POWER = 1.0"
definition POWER_STEP :: real where "POWER_STEP = 0.0008"
definition BOUNCE_DAMPING :: real where "BOUNCE_DAMPING = 0.7"
definition ROTATION_SCALE :: real where "ROTATION_SCALE = 6.0"
definition BACKBOARD_DAMP_FACTOR :: real where "BACKBOARD_DAMP_FACTOR = 0.6"

subsection \<open>Vectors (the operations of THREE.Vector3 that the code calls)\<close>

datatype Vector3 = Vector3 (vec_x: real) (vec_y: real) (vec_z: real)

definition set_x :: "Vector3 \<Rightarrow> real \<Rightarrow> Vector3" where
  "set_x v a = Vector3 a (vec_y v) (vec_z v)"

definition set_y :: "Vector3 \<Rightarrow> real \<Rightarrow> Vector3" where
  "set_y v a = Vector3 (vec_x v) a (vec_z v)"

definition set_z :: "Vector3 \<Rightarrow> real \<Rightarrow> Vector3" where
  "set_z v a = Vector3 (vec_x v) (vec_y v) a"

definition add :: "Vector3 \<Rightarrow> Vector3 \<Rightarrow> Vector3" where
  "add a b = Vector3 (vec_x a + vec_x b) (vec_y a + vec_y b) (vec_z a + vec_z b)"

definition sub :: "Vector3 \<Rightarrow> Vector3 \<Rightarrow> Vector3" where
  "sub a b = Vector3 (vec_x a - vec_x b) (vec_y a - vec_y b) (vec_z a - vec_z b)"

definition multiplyScalar :: "Vector3 \<Rightarrow> real \<Rightarrow> Vector3" where
  "multiplyScalar v k = Vector3 (vec_x v * k) (vec_y v * k) (vec_z v * k)"

definition dot :: "Vector3 \<Rightarrow> Vector3 \<Rightarrow> real" where
  "dot a b = vec_x a * vec_x b + vec_y a * vec_y b + vec_z a * vec_z b"

definition length_v :: "Vector3 \<Rightarrow> real" where
  "length_v v = sqrt (vec_x v * vec_x v + vec_y v * vec_y v + vec_z v * vec_z v)"

definition distanceTo :: "Vector3 \<Rightarrow> Vector3 \<Rightarrow> real" where
  "distanceTo a b = length_v (sub a b)"

text \<open>
  three.js: \<open>normalize() { return this.divideScalar(this.length() || 1) }\<close>. A vector of
  length zero is divided by 1.
\<close>

definition normalize :: "Vector3 \<Rightarrow> Vector3" where
  "normalize v =
     (let l = (if length_v v = 0 then 1 else length_v v)
      in Vector3 (vec_x v / l) (vec_y v / l) (vec_z v / l))"

text \<open>three.js: \<open>reflect(n)\<close> is \<open>this - 2 (this . n) n\<close>.\<close>

definition reflect :: "Vector3 \<Rightarrow> Vector3 \<Rightarrow> Vector3" where
  "reflect v n = sub v (multiplyScalar n (2 * dot v n))"

subsection \<open>The game state (hw5.js, lines 561-589)\<close>

record gameState =
  ballPosition :: Vector3
  ballVelocity :: Vector3
  ballRotation :: Vector3
  ballAngularVelocity :: Vector3
  keys :: "string \<Rightarrow> bool"
  shotPower :: real
  isMoving :: bool
  isShooting :: bool
  score :: int
  shotAttempts :: int
  shotsMade :: int
  lastShotResult :: string
  shotFeedbackTimer :: real
  shotOrigin :: Vector3
  isThreePointer :: bool
  lastBallPosition :: Vector3

definition initialGameState :: gameState where
  "initialGameState =
     \<lparr> ballPosition = Vector3 0 (COURT_FLOOR_Y + BALL_RADIUS + LINES_Y_OFFSET) 0,
       ballVelocity = Vector3 0 0 0,
       ballRotation = Vector3 0 0 0,
       ballAngularVelocity = Vector3 0 0 0,
       keys = (\<lambda>k. False),
       shotPower = 0.5,
       isMoving = False,
       isShooting = False,
       score = 0,
       shotAttempts = 0,
       shotsMade = 0,
       lastShotResult = '''',
       shotFeedbackTimer = 0,
       shotOrigin = Vector3 0 0 0,
       isThreePointer = False,
       lastBallPosition = Vector3 0 0 0 \<rparr>"

subsection \<open>The two hoops (createHoop, lines 1239-1321; init, lines 1901-1906)\<close>

text \<open>
  A hoop is a scene-graph group at the origin: \<open>userData.rimPosition\<close> and the backboard's
  position are local coordinates. three.js (r128) keeps the rotation of a group as a
  quaternion. createHoop leaves it at the identity \<open>(0, 0, 0, 1)\<close>. The assignment
  \<open>leftHoop.rotation.y = Math.PI\<close> (line 1904) sets it, through Quaternion.setFromEuler, to
  \<open>(0, Math.sin(Math.PI / 2), 0, Math.cos(Math.PI / 2))\<close>. \<open>Math.PI\<close> is a double and not
  \<open>\<pi>\<close>: the sine is 1, the cosine is the double 6.123233995736766e-17 and not 0. The two
  numbers are taken as the program has them.

  \<open>localToWorld\<close> applies the world matrix of the group, which Matrix4.compose builds from
  the quaternion (position 0, scale 1); it is written out for a quaternion \<open>(0, y, 0, w)\<close>,
  with the names of compose. So the left hoop is not the exact mirror image of the right
  one: a local point \<open>(x, y, 0)\<close> of it is at \<open>(-x, y, -1.2246467991473532e-16 * x)\<close>.
\<close>

record Hoop =
  rimPosition :: Vector3
  backboardPosition :: Vector3
  quaternion_y :: real
  quaternion_w :: real

definition createHoop :: Hoop where
  "createHoop =
     (let poleX = (COURT_LENGTH / 2) + POLE_RADIUS + 0.5;
          backboardX = poleX - POLE_RADIUS - BACKBOARD_DIST_FROM_BASELINE;
          backboardP = Vector3 backboardX (RIM_Y + (BACKBOARD_HEIGHT / 2) - 0.15) 0;
          connectorDepth = 0.15;
          connectorX = vec_x backboardP - 0.04 - (connectorDepth / 2);
          rimP = Vector3 (connectorX - (connectorDepth / 2) - RIM_RADIUS) RIM_Y 0
      in \<lparr> rimPosition = rimP, backboardPosition = backboardP,
           quaternion_y = 0, quaternion_w = 1 \<rparr>)"

definition rightHoop :: Hoop where
  "rightHoop = createHoop"

definition leftHoop :: Hoop where
  "leftHoop = createHoop \<lparr> quaternion_y := 1, quaternion_w := 6123233995736766 / 10 ^ 32 \<rparr>"

definition localToWorld :: "Hoop \<Rightarrow> Vector3 \<Rightarrow> Vector3" where
  "localToWorld hoop v =
     (let y = quaternion_y hoop;
          w = quaternion_w hoop;
          y2 = y + y;
          yy = y * y2;
          wy = w * y2;
          te0 = 1 - yy;
          te2 = - wy;
          te8 = wy;
          te10 = 1 - yy
      in Vector3 (te0 * vec_x v + te8 * vec_z v) (vec_y v) (te2 * vec_x v + te10 * vec_z v))"

subsection \<open>Three-point classification (isThreePointShot, lines 535-555)\<close>

definition isThreePointShot :: "Vector3 \<Rightarrow> Vector3 \<Rightarrow> bool" where
  "isThreePointShot shotPosition targetHoopPos =
     (let THREE_POINT_ARC_RADIUS = 6.75;
          COURT_WIDTH_HALF = COURT_WIDTH / 2;
          THREE_POINT_STRAIGHT_LINE_Y = COURT_WIDTH_HALF - 0.9;
          horizontalDistance = sqrt ((vec_x shotPosition - vec_x targetHoopPos)\<^sup>2 +
                                     (vec_z shotPosition - vec_z targetHoopPos)\<^sup>2)
      in if horizontalDistance \<ge> THREE_POINT_ARC_RADIUS then
           if \<bar>vec_z shotPosition\<bar> \<le> THREE_POINT_STRAIGHT_LINE_Y then True
           else
             (let distanceFromBaseline = \<bar>vec_x shotPosition - vec_x targetHoopPos\<bar>
              in distanceFromBaseline \<ge> THREE_POINT_ARC_RADIUS)
         else False)"

subsection \<open>Physics (class PhysicsSystem, lines 1510-1725)\<close>

text \<open>scoreBasket, lines 1695-1724: the guard compares the result with \<open>'made'\<close>.\<close>

definition scoreBasket :: "Hoop \<Rightarrow> gameState \<Rightarrow> gameState" where
  "scoreBasket hoop s =
     (if lastShotResult s \<noteq> ''made'' then
        (let points = (if isThreePointer s then 3 else 2)
         in s \<lparr> score := score s + points,
                shotsMade := shotsMade s + 1,
                lastShotResult := ''made'' \<rparr>)
      else s)"

text \<open>The body of the \<open>forEach\<close> of checkBackboardCollision, lines 1596-1645.\<close>

definition backboardCollisionOf :: "Hoop \<Rightarrow> gameState \<Rightarrow> gameState" where
  "backboardCollisionOf hoop s =
     (let backboardPos = localToWorld hoop (backboardPosition hoop);
          backboardWidth = BACKBOARD_WIDTH;
          backboardHeight = BACKBOARD_HEIGHT;
          backboardThickness = 0.08;
          ballToBackboard = sub (ballPosition s) backboardPos;
          isWithinHeight = (\<bar>vec_y ballToBackboard\<bar> \<le> backboardHeight / 2 + BALL_RADIUS);
          isWithinWidth = (\<bar>vec_z ballToBackboard\<bar> \<le> backboardWidth / 2 + BALL_RADIUS)
      in if isWithinHeight \<and> isWithinWidth then
           (let hitFromFront =
                  (if hoop = rightHoop then vec_x (ballPosition s) < vec_x backboardPos
                   else vec_x (ballPosition s) > vec_x backboardPos);
                distanceToBackboard = \<bar>vec_x ballToBackboard\<bar>;
                collisionThreshold = (backboardThickness / 2) + BALL_RADIUS
            in if distanceToBackboard \<le> collisionThreshold then
                 (let newX =
                        (if hoop = rightHoop then
                           (if hitFromFront then vec_x backboardPos - collisionThreshold
                            else vec_x backboardPos + collisionThreshold)
                         else
                           (if hitFromFront then vec_x backboardPos + collisionThreshold
                            else vec_x backboardPos - collisionThreshold));
                      v = ballVelocity s
                  in s \<lparr> ballPosition := set_x (ballPosition s) newX,
                         ballVelocity :=
                           Vector3 (- vec_x v * BOUNCE_DAMPING * BACKBOARD_DAMP_FACTOR)
                                   (vec_y v * (BOUNCE_DAMPING * 0.9 * BACKBOARD_DAMP_FACTOR))
                                   (vec_z v * (BOUNCE_DAMPING * 0.95 * BACKBOARD_DAMP_FACTOR)) \<rparr>)
               else s)
         else s)"

definition checkBackboardCollision :: "gameState \<Rightarrow> gameState" where
  "checkBackboardCollision s = backboardCollisionOf leftHoop (backboardCollisionOf rightHoop s)"

text \<open>
  The body of the \<open>forEach\<close> of checkHoopCollision, lines 1654-1692. The made-basket test
  comes first; the rim bounce is its \<open>else if\<close>.
\<close>

definition madeBasketTest :: "Hoop \<Rightarrow> gameState \<Rightarrow> bool" where
  "madeBasketTest hoop s =
     (let rimPos = localToWorld hoop (rimPosition hoop);
          ballToRim = sub (ballPosition s) rimPos;
          horizontalDistance = sqrt (vec_x ballToRim * vec_x ballToRim + vec_z ballToRim * vec_z ballToRim);
          verticalDistance = \<bar>vec_y ballToRim\<bar>
      in horizontalDistance < RIM_RADIUS - BALL_RADIUS * 0.5 \<and>
         verticalDistance < BALL_RADIUS \<and>
         vec_y (ballVelocity s) < 0)"

definition rimCollisionTest :: "Hoop \<Rightarrow> gameState \<Rightarrow> bool" where
  "rimCollisionTest hoop s =
     (let rimThickness = 0.025;
          rimPos = localToWorld hoop (rimPosition hoop);
          ballToRim = sub (ballPosition s) rimPos;
          horizontalDistance = sqrt (vec_x ballToRim * vec_x ballToRim + vec_z ballToRim * vec_z ballToRim);
          verticalDistance = \<bar>vec_y ballToRim\<bar>
      in verticalDistance < BALL_RADIUS + rimThickness \<and>
         horizontalDistance > RIM_RADIUS - BALL_RADIUS \<and>
         horizontalDistance < RIM_RADIUS + rimThickness)"

definition rimBounce :: "Hoop \<Rightarrow> gameState \<Rightarrow> gameState" where
  "rimBounce hoop s =
     (let rimPos = localToWorld hoop (rimPosition hoop);
          ballToRim = sub (ballPosition s) rimPos;
          horizontalDistance = sqrt (vec_x ballToRim * vec_x ballToRim + vec_z ballToRim * vec_z ballToRim);
          collisionNormal = normalize (Vector3 (vec_x ballToRim) 0 (vec_z ballToRim));
          v1 = multiplyScalar (reflect (ballVelocity s) collisionNormal) BOUNCE_DAMPING;
          v2 = set_y v1 (\<bar>vec_y v1 * BOUNCE_DAMPING * 0.5\<bar> + 0.5);
          repositionVector =
            multiplyScalar collisionNormal (RIM_RADIUS + BALL_RADIUS - horizontalDistance + 0.01)
      in s \<lparr> ballVelocity := v2, ballPosition := add (ballPosition s) repositionVector \<rparr>)"

definition hoopCollisionOf :: "Hoop \<Rightarrow> gameState \<Rightarrow> gameState" where
  "hoopCollisionOf hoop s =
     (if madeBasketTest hoop s then scoreBasket hoop s
      else if rimCollisionTest hoop s then rimBounce hoop s
      else s)"

definition checkHoopCollision :: "gameState \<Rightarrow> gameState" where
  "checkHoopCollision s = hoopCollisionOf leftHoop (hoopCollisionOf rightHoop s)"

text \<open>
  updateBallPhysics, lines 1511-1589, in the order of the code: gravity and integration,
  the floor, the walls in x and in z, the rotation, then the backboards and the hoops. Each
  block runs on the state the previous one left, also when the floor block has just set
  \<open>isShooting\<close> to false.
\<close>

definition integrateBall :: "real \<Rightarrow> gameState \<Rightarrow> gameState" where
  "integrateBall deltaTime s =
     (let v = set_y (ballVelocity s) (vec_y (ballVelocity s) + GRAVITY * deltaTime);
          deltaPos = multiplyScalar v deltaTime
      in s \<lparr> ballVelocity := v, ballPosition := add (ballPosition s) deltaPos \<rparr>)"

definition groundCollision :: "gameState \<Rightarrow> gameState" where
  "groundCollision s =
     (if vec_y (ballPosition s) \<le> COURT_FLOOR_Y + BALL_RADIUS + LINES_Y_OFFSET then
        (let p = set_y (ballPosition s) (COURT_FLOOR_Y + BALL_RADIUS + LINES_Y_OFFSET);
             v = ballVelocity s;
             v1 = Vector3 (vec_x v * BOUNCE_DAMPING) (- vec_y v * BOUNCE_DAMPING)
                          (vec_z v * BOUNCE_DAMPING);
             s1 = s \<lparr> ballPosition := p, ballVelocity := v1 \<rparr>
         in if \<bar>vec_y v1\<bar> < 0.1 \<and> length_v v1 < 0.5 then
              s1 \<lparr> ballVelocity := Vector3 0 0 0,
                    ballAngularVelocity := Vector3 0 0 0,
                    isShooting := False \<rparr>
            else s1)
      else s)"

definition boundaryCollisionX :: "gameState \<Rightarrow> gameState" where
  "boundaryCollisionX s =
     (let courtEdgeX = COURT_LENGTH / 2 - BALL_RADIUS
      in if vec_x (ballPosition s) \<ge> courtEdgeX then
           s \<lparr> ballPosition := set_x (ballPosition s) courtEdgeX,
               ballVelocity := set_x (ballVelocity s) (- vec_x (ballVelocity s) * BOUNCE_DAMPING) \<rparr>
         else if vec_x (ballPosition s) \<le> - courtEdgeX then
           s \<lparr> ballPosition := set_x (ballPosition s) (- courtEdgeX),
               ballVelocity := set_x (ballVelocity s) (- vec_x (ballVelocity s) * BOUNCE_DAMPING) \<rparr>
         else s)"

definition boundaryCollisionZ :: "gameState \<Rightarrow> gameState" where
  "boundaryCollisionZ s =
     (let courtEdgeZ = COURT_WIDTH / 2 - BALL_RADIUS
      in if vec_z (ballPosition s) \<ge> courtEdgeZ then
           s \<lparr> ballPosition := set_z (ballPosition s) courtEdgeZ,
               ballVelocity := set_z (ballVelocity s) (- vec_z (ballVelocity s) * BOUNCE_DAMPING) \<rparr>
         else if vec_z (ballPosition s) \<le> - courtEdgeZ then
           s \<lparr> ballPosition := set_z (ballPosition s) (- courtEdgeZ),
               ballVelocity := set_z (ballVelocity s) (- vec_z (ballVelocity s) * BOUNCE_DAMPING) \<rparr>
         else s)"

definition rotateBall :: "real \<Rightarrow> gameState \<Rightarrow> gameState" where
  "rotateBall deltaTime s =
     (let velocityLength = length_v (ballVelocity s);
          s1 = (if velocityLength > 0.1 then
                  (let rotationAxis =
                         normalize (Vector3 (- vec_z (ballVelocity s)) 0 (vec_x (ballVelocity s)));
                       rotationSpeed = velocityLength * ROTATION_SCALE * deltaTime
                   in s \<lparr> ballAngularVelocity := multiplyScalar rotationAxis rotationSpeed \<rparr>)
                else s)
      in s1 \<lparr> ballRotation := add (ballRotation s1) (ballAngularVelocity s1) \<rparr>)"

definition updateBallPhysics :: "real \<Rightarrow> gameState \<Rightarrow> gameState" where
  "updateBallPhysics deltaTime s =
     (let s0 = s \<lparr> lastBallPosition := ballPosition s \<rparr>
      in if isShooting s0 then
           checkHoopCollision
             (checkBackboardCollision
               (rotateBall deltaTime
                 (boundaryCollisionZ
                   (boundaryCollisionX
                     (groundCollision
                       (integrateBall deltaTime s0))))))
         else s0)"

subsection \<open>Input (class InputSystem, lines 1731-1868)\<close>

text \<open>
  handleInput, lines 1732-1790, in its three parts: the arrow keys (lines 1735-1779), the
  power up on \<open>KeyW\<close> (lines 1782-1785) and the power down on \<open>KeyS\<close> (lines 1786-1789).
  The move vector is built by four successive tests (a later key overwrites an earlier one
  on the same axis); the new position is clamped in x and in z (lines 1761-1765).
\<close>

definition moveVectorOf :: "gameState \<Rightarrow> Vector3" where
  "moveVectorOf s =
     (let mx0 = (if keys s ''ArrowLeft'' then - BALL_MOVEMENT_SPEED else 0);
          mx = (if keys s ''ArrowRight'' then BALL_MOVEMENT_SPEED else mx0);
          mz0 = (if keys s ''ArrowUp'' then - BALL_MOVEMENT_SPEED else 0);
          mz = (if keys s ''ArrowDown'' then BALL_MOVEMENT_SPEED else mz0)
      in Vector3 mx 0 mz)"

definition keepWithinCourt :: "Vector3 \<Rightarrow> Vector3" where
  "keepWithinCourt newPosition =
     (let maxX = COURT_LENGTH / 2 - BALL_RADIUS;
          maxZ = COURT_WIDTH / 2 - BALL_RADIUS
      in Vector3 (max (- maxX) (min maxX (vec_x newPosition)))
                 (vec_y newPosition)
                 (max (- maxZ) (min maxZ (vec_z newPosition))))"

definition handleMovement :: "real \<Rightarrow> gameState \<Rightarrow> gameState" where
  "handleMovement deltaTime s =
     (let moveVector = moveVectorOf s;
          moved = (keys s ''ArrowLeft'' \<or> keys s ''ArrowRight'' \<or>
                   keys s ''ArrowUp'' \<or> keys s ''ArrowDown'')
      in if moved then
           (let newPosition = keepWithinCourt (add (ballPosition s) moveVector);
                rotationAxis = normalize (Vector3 (- vec_z moveVector) 0 (vec_x moveVector));
                rotationSpeed = length_v moveVector * ROTATION_SCALE * deltaTime;
                av = multiplyScalar rotationAxis rotationSpeed
            in s \<lparr> ballPosition := newPosition,
                   ballAngularVelocity := av,
                   ballRotation := add (ballRotation s) av,
                   isMoving := True \<rparr>)
         else
           s \<lparr> isMoving := False,
               ballAngularVelocity := multiplyScalar (ballAngularVelocity s) 0.95 \<rparr>)"

definition handlePowerUp :: "gameState \<Rightarrow> gameState" where
  "handlePowerUp s =
     (if keys s ''KeyW'' then
        s \<lparr> shotPower := min MAX_SHOT_POWER (shotPower s + POWER_STEP) \<rparr>
      else s)"

definition handlePowerDown :: "gameState \<Rightarrow> gameState" where
  "handlePowerDown s =
     (if keys s ''KeyS'' then
        s \<lparr> shotPower := max MIN_SHOT_POWER (shotPower s - POWER_STEP) \<rparr>
      else s)"

definition handleInput :: "real \<Rightarrow> gameState \<Rightarrow> gameState" where
  "handleInput deltaTime s =
     (if isShooting s then s
      else handlePowerDown (handlePowerUp (handleMovement deltaTime s)))"

text \<open>
  shootBall, lines 1792-1853. The target is the rim centre that \<open>distToRight < distToLeft\<close>
  selects; the two numbers are results of Vector3.distanceTo, computed in double precision.
  For a ball at x = 0 the two exact distances differ by less than 1e-14 (they would be
  equal if the left hoop were the exact mirror image of the right one), and rounding decides
  the comparison: in IEEE double arithmetic it is false at the start position
  \<open>(0, 0.1313, 0)\<close> and true after eleven frames with ArrowDown held. Exact arithmetic does
  not reproduce that, so the distance function of this comparison is the parameter
  \<open>distTo\<close> of shootBall, and of onKeyDown, step and run, which pass it on. Everything else
  in shootBall is computed from the exact positions. The properties that do not depend on
  the choice of the target hold for every \<open>distTo\<close>; the released velocity is stated for a
  \<open>distTo\<close> within an error bound of the exact distance \<open>distanceTo\<close>.
\<close>

definition shootBall :: "(Vector3 \<Rightarrow> Vector3 \<Rightarrow> real) \<Rightarrow> gameState \<Rightarrow> gameState" where
  "shootBall distTo s =
     (if isShooting s then s
      else
        (let rightHoopPos = localToWorld rightHoop (rimPosition rightHoop);
             leftHoopPos = localToWorld leftHoop (rimPosition leftHoop);
             distToRight = distTo (ballPosition s) rightHoopPos;
             distToLeft = distTo (ballPosition s) leftHoopPos;
             targetHoopPos = (if distToRight < distToLeft then rightHoopPos else leftHoopPos);
             toHoop = sub targetHoopPos (ballPosition s);
             horizontalDistance = sqrt (vec_x toHoop * vec_x toHoop + vec_z toHoop * vec_z toHoop);
             verticalDistance = vec_y toHoop;
             TIME_TO_RIM = 1.6;
             perfect_vy = (verticalDistance - 0.5 * GRAVITY * TIME_TO_RIM * TIME_TO_RIM) / TIME_TO_RIM;
             perfect_vx = vec_x toHoop / TIME_TO_RIM;
             perfect_vz = vec_z toHoop / TIME_TO_RIM;
             perfectVelocity = Vector3 perfect_vx perfect_vy perfect_vz;
             MAX_SHOOTING_DISTANCE = 25.0;
             distanceRatio = min 1.0 (horizontalDistance / MAX_SHOOTING_DISTANCE);
             idealPower = MIN_SHOT_POWER + distanceRatio * (MAX_SHOT_POWER - MIN_SHOT_POWER);
             powerDifference = shotPower s - idealPower;
             SHOT_ERROR_SENSITIVITY = 0.4;
             errorFactor = 1.0 + (powerDifference * SHOT_ERROR_SENSITIVITY);
             feedbackTime = max 2.0 (TIME_TO_RIM + 0.5)
         in s \<lparr> shotOrigin := ballPosition s,
                isThreePointer := isThreePointShot (ballPosition s) targetHoopPos,
                ballVelocity := multiplyScalar perfectVelocity errorFactor,
                isShooting := True,
                shotAttempts := shotAttempts s + 1,
                lastShotResult := '''',
                shotFeedbackTimer := feedbackTime \<rparr>))"

definition resetBall :: "gameState \<Rightarrow> gameState" where
  "resetBall s =
     s \<lparr> ballPosition := Vector3 0 (COURT_FLOOR_Y + BALL_RADIUS + LINES_Y_OFFSET) 0,
         ballVelocity := Vector3 0 0 0,
         ballRotation := Vector3 0 0 0,
         ballAngularVelocity := Vector3 0 0 0,
         shotPower := 0.5,
         isShooting := False,
         isMoving := False,
         lastShotResult := '''' \<rparr>"

subsection \<open>The frame and the key events (lines 1935-2019)\<close>

text \<open>The block "Handle shot feedback timeout" of animate, lines 2002-2013.\<close>

definition shotFeedbackTimeout :: "real \<Rightarrow> gameState \<Rightarrow> gameState" where
  "shotFeedbackTimeout deltaTime s =
     (if shotFeedbackTimer s > 0 then
        (let s1 = s \<lparr> shotFeedbackTimer := shotFeedbackTimer s - deltaTime \<rparr>
         in if shotFeedbackTimer s1 \<le> 0 \<and> lastShotResult s1 = '''' then
              s1 \<lparr> lastShotResult := ''missed'' \<rparr>
            else s1)
      else s)"

definition animate :: "real \<Rightarrow> gameState \<Rightarrow> gameState" where
  "animate deltaTime s =
     shotFeedbackTimeout deltaTime (updateBallPhysics deltaTime (handleInput deltaTime s))"

definition onKeyDown ::
  "(Vector3 \<Rightarrow> Vector3 \<Rightarrow> real) \<Rightarrow> string \<Rightarrow> gameState \<Rightarrow> gameState" where
  "onKeyDown distTo key s =
     (let s1 = s \<lparr> keys := (keys s)(key := True) \<rparr>
      in if key = ''KeyR'' then resetBall s1
         else if key = ''Space'' then shootBall distTo s1
         else s1)"

definition onKeyUp :: "string \<Rightarrow> gameState \<Rightarrow> gameState" where
  "onKeyUp key s = s \<lparr> keys := (keys s)(key := False) \<rparr>"

text \<open>
  What the browser delivers to the program: animation frames with the elapsed time, and key
  events. A session is a list of them, run from left to right.
\<close>

datatype Event = Frame real | KeyDown string | KeyUp string

fun step :: "(Vector3 \<Rightarrow> Vector3 \<Rightarrow> real) \<Rightarrow> gameState \<Rightarrow> Event \<Rightarrow> gameState" where
  "step distTo s (Frame deltaTime) = animate deltaTime s"
| "step distTo s (KeyDown key) = onKeyDown distTo key s"
| "step distTo s (KeyUp key) = onKeyUp key s"

definition run :: "(Vector3 \<Rightarrow> Vector3 \<Rightarrow> real) \<Rightarrow> gameState \<Rightarrow> Event list \<Rightarrow> gameState" where
  "run distTo s es = foldl (step distTo) s es"

subsection \<open>Reference definitions and concrete states used by the theorems\<close>

text \<open>
  The world positions of the two rim centres and of the left backboard.
\<close>

definition rightRimCentre :: Vector3 where
  "rightRimCentre = Vector3 12.885 3.05 0"

definition leftRimCentre :: Vector3 where
  "leftRimCentre = Vector3 (- 12.885) 3.05 (- (12.885 * (12246467991473532 / 10 ^ 32)))"

definition leftBackboardCentre :: Vector3 where
  "leftBackboardCentre = Vector3 (- 13.3) 3.425 (- (13.3 * (12246467991473532 / 10 ^ 32)))"

text \<open>
  The choice shootBall makes between the rim centres, written out: the right one when the
  distance function gives a strictly smaller number for it, the left one otherwise.
\<close>

definition targetRimCentre :: "(Vector3 \<Rightarrow> Vector3 \<Rightarrow> real) \<Rightarrow> Vector3 \<Rightarrow> Vector3" where
  "targetRimCentre distTo p =
     (if distTo p rightRimCentre < distTo p leftRimCentre then rightRimCentre else leftRimCentre)"

text \<open>Scenario D: an origin 7.0 in front of the right rim, on the court's long axis.\<close>

definition scenarioD_origin :: Vector3 where
  "scenarioD_origin = Vector3 5.885 (COURT_FLOOR_Y + BALL_RADIUS + LINES_Y_OFFSET) 0"

text \<open>Scenario C: in flight, 0.01 below the resting height, falling at 5 m/s.\<close>

definition scenarioC_state :: gameState where
  "scenarioC_state =
     initialGameState \<lparr> isShooting := True,
                        ballPosition := Vector3 0 (COURT_FLOOR_Y + BALL_RADIUS - 0.01) 0,
                        ballVelocity := Vector3 0 (- 5) 0 \<rparr>"

text \<open>
  The total frame time of a session, and sessions in which neither the shoot key nor the
  reset key is pressed.
\<close>

fun frameTime :: "Event list \<Rightarrow> real" where
  "frameTime [] = 0"
| "frameTime (Frame deltaTime # es) = deltaTime + frameTime es"
| "frameTime (e # es) = frameTime es"

fun noShootOrReset :: "Event list \<Rightarrow> bool" where
  "noShootOrReset [] = True"
| "noShootOrReset (KeyDown key # es) = (key \<noteq> ''Space'' \<and> key \<noteq> ''KeyR'' \<and> noShootOrReset es)"
| "noShootOrReset (e # es) = noShootOrReset es"

text \<open>A shot in flight, result pending, with the whole feedback time still to run.\<close>

definition abortedShot_state :: gameState where
  "abortedShot_state =
     initialGameState \<lparr> isShooting := True,
                        shotAttempts := 1,
                        shotFeedbackTimer := 2.1,
                        ballPosition := Vector3 3 2 0,
                        ballVelocity := Vector3 1 1 0 \<rparr>"

text \<open>A shot in flight above the right rim, falling, 0.05 s before the feedback time runs out;
  the state after the next frame; the state of the frame after that when it reaches
  checkHoopCollision; and the state after that frame.\<close>

definition lateMake_state :: gameState where
  "lateMake_state =
     initialGameState \<lparr> isShooting := True,
                        shotAttempts := 1,
                        shotFeedbackTimer := 0.05,
                        ballPosition := Vector3 12.885 3.5 0,
                        ballVelocity := Vector3 0 (- 2) 0 \<rparr>"

definition lateMake_frame1 :: gameState where
  "lateMake_frame1 =
     lateMake_state \<lparr> ballPosition := Vector3 12.885 3.202 0,
                      ballVelocity := Vector3 0 (- 2.98) 0,
                      lastBallPosition := Vector3 12.885 3.5 0,
                      shotFeedbackTimer := - 0.05,
                      lastShotResult := ''missed'' \<rparr>"

definition lateMake_atRim :: gameState where
  "lateMake_atRim =
     lateMake_frame1 \<lparr> ballPosition := Vector3 12.885 3.0285 0,
                       ballVelocity := Vector3 0 (- 3.47) 0,
                       lastBallPosition := Vector3 12.885 3.202 0 \<rparr>"

definition lateMake_frame2 :: gameState where
  "lateMake_frame2 =
     lateMake_atRim \<lparr> score := 2, shotsMade := 1, lastShotResult := ''made'' \<rparr>"

text \<open>A ball exactly at the right rim centre, and one inside the rim band of the right hoop.\<close>

definition rimCentre_state :: gameState where
  "rimCentre_state =
     initialGameState \<lparr> isShooting := True,
                        shotAttempts := 1,
                        ballPosition := Vector3 12.885 3.05 0,
                        ballVelocity := Vector3 1 2 3 \<rparr>"

definition rimBand_state :: gameState where
  "rimBand_state =
     initialGameState \<lparr> isShooting := True,
                        shotAttempts := 1,
                        ballPosition := Vector3 13.085 3.05 0,
                        ballVelocity := Vector3 0.3 (- 0.4) 0 \<rparr>"

text \<open>The part of updateBallPhysics that runs before checkHoopCollision, from the copy of the last position to the backboards.\<close>

definition beforeHoopCheck :: "real \<Rightarrow> gameState \<Rightarrow> gameState" where
  "beforeHoopCheck deltaTime s =
     checkBackboardCollision
       (rotateBall deltaTime
         (boundaryCollisionZ
           (boundaryCollisionX
             (groundCollision
               (integrateBall deltaTime (s \<lparr> lastBallPosition := ballPosition s \<rparr>))))))"

text \<open>Within an attempt that had \<open>n\<close> made shots when it started: either nothing was scored yet, or one basket was scored and no second one can be.\<close>

definition attemptInvariant :: "int \<Rightarrow> gameState \<Rightarrow> bool" where
  "attemptInvariant n s =
     (shotsMade s = n \<and> lastShotResult s \<noteq> ''made'' \<or>
      shotsMade s = n + 1 \<and> (lastShotResult s = ''made'' \<or> \<not> isShooting s))"

text \<open>The court bounds for the ball centre.\<close>

definition inCourt :: "Vector3 \<Rightarrow> bool" where
  "inCourt p \<longleftrightarrow>
     \<bar>vec_x p\<bar> \<le> COURT_LENGTH / 2 - BALL_RADIUS \<and> \<bar>vec_z p\<bar> \<le> COURT_WIDTH / 2 - BALL_RADIUS"

text \<open>The speed in the horizontal plane.\<close>

definition horizontalSpeed :: "Vector3 \<Rightarrow> real" where
  "horizontalSpeed v = sqrt (vec_x v * vec_x v + vec_z v * vec_z v)"

text \<open>The state after the rim bounce of \<open>rimBand_state\<close>.\<close>

definition rimBand_after :: gameState where
  "rimBand_after =
     rimBand_state \<lparr> ballVelocity := Vector3 (- 0.21) 0.598 0,
                      ballPosition := Vector3 13.2413 3.05 0 \<rparr>"

text \<open>
  The first attempt of a session in flight, not a three-pointer, through the fields that the
  physics and the scoring read: position, velocity, result, feedback timer, and the number of
  baskets made so far, each worth two points.
\<close>

definition inFlightWith ::
  "gameState \<Rightarrow> Vector3 \<Rightarrow> Vector3 \<Rightarrow> string \<Rightarrow> real \<Rightarrow> int \<Rightarrow> bool" where
  "inFlightWith s p v result timer made \<longleftrightarrow>
     isShooting s \<and> ballPosition s = p \<and> ballVelocity s = v \<and> lastShotResult s = result \<and>
     shotFeedbackTimer s = timer \<and> shotsMade s = made \<and> score s = 2 * made \<and>
     shotAttempts s = 1 \<and> \<not> isThreePointer s"

text \<open>
  A session from the initial state. The player holds the right arrow for 161 frames of 16 ms,
  which moves the ball to x = 12.88, below the right rim, releases the key and shoots with
  the default power. The next frame comes 2.7 s later (\<open>clock.getDelta()\<close> is not
  clamped, line 1988). At x = 12.88 the ball is about 2.9 from the right rim centre and 25.9
  from the left one, so the session is run with the exact distance function.
\<close>

definition lateMake_session :: "Event list" where
  "lateMake_session =
     KeyDown ''ArrowRight'' # replicate 161 (Frame 0.016) @
     [KeyUp ''ArrowRight'', KeyDown ''Space'', Frame 2.7]"

text \<open>
  The made-basket condition in the words of the specification: \<open>isWithinRimPlane\<close>, and a
  basket for a rim centre, which also needs a falling ball and an attempt that has not
  scored yet.
\<close>

definition isWithinRimPlane :: "Vector3 \<Rightarrow> Vector3 \<Rightarrow> real \<Rightarrow> real \<Rightarrow> bool" where
  "isWithinRimPlane ballPos rimCenter rimRadius ballRadius \<longleftrightarrow>
     sqrt ((vec_x ballPos - vec_x rimCenter)\<^sup>2 + (vec_z ballPos - vec_z rimCenter)\<^sup>2)
       < rimRadius - ballRadius * 0.5 \<and>
     \<bar>vec_y ballPos - vec_y rimCenter\<bar> < ballRadius"

definition scoresAt :: "Vector3 \<Rightarrow> gameState \<Rightarrow> bool" where
  "scoresAt rimCenter s \<longleftrightarrow>
     isWithinRimPlane (ballPosition s) rimCenter RIM_RADIUS BALL_RADIUS \<and>
     vec_y (ballVelocity s) < 0 \<and>
     lastShotResult s \<noteq> ''made''"

section \<open>Properties\<close>

subsection \<open>Basic facts\<close>

lemmas const_defs =
  COURT_LENGTH_def COURT_WIDTH_def COURT_FLOOR_Y_def LINES_Y_OFFSET_def RIM_Y_def
  RIM_RADIUS_def BACKBOARD_WIDTH_def BACKBOARD_HEIGHT_def BACKBOARD_DIST_FROM_BASELINE_def
  POLE_RADIUS_def BALL_RADIUS_def GRAVITY_def BALL_MOVEMENT_SPEED_def MIN_SHOT_POWER_def
  MAX_SHOT_POWER_def POWER_STEP_def BOUNCE_DAMPING_def ROTATION_SCALE_def
  BACKBOARD_DAMP_FACTOR_def

lemma rightRim_world: "localToWorld rightHoop (rimPosition rightHoop) = Vector3 12.885 3.05 0"
  by (simp add: localToWorld_def rightHoop_def createHoop_def const_defs Let_def)

lemma leftRim_world: "localToWorld leftHoop (rimPosition leftHoop) = leftRimCentre"
  by (simp add: localToWorld_def leftHoop_def createHoop_def const_defs Let_def leftRimCentre_def)

lemma leftRimCentre_xy [simp]:
  "vec_x leftRimCentre = - 12.885" "vec_y leftRimCentre = 3.05"
  by (simp_all add: leftRimCentre_def)

lemma leftRimCentre_z: "- (1 / 100000000000000) < vec_z leftRimCentre" "vec_z leftRimCentre < 0"
  by (simp_all add: leftRimCentre_def)

lemma rightBackboard_world:
  "localToWorld rightHoop (backboardPosition rightHoop) = Vector3 13.3 3.425 0"
  by (simp add: localToWorld_def rightHoop_def createHoop_def const_defs Let_def)

lemma leftBackboard_world:
  "localToWorld leftHoop (backboardPosition leftHoop) = leftBackboardCentre"
  by (simp add: localToWorld_def leftHoop_def createHoop_def const_defs Let_def
        leftBackboardCentre_def)

lemma leftBackboardCentre_xy [simp]:
  "vec_x leftBackboardCentre = - 13.3" "vec_y leftBackboardCentre = 3.425"
  by (simp_all add: leftBackboardCentre_def)

lemma hoops_distinct: "leftHoop \<noteq> rightHoop"
  by (simp add: leftHoop_def rightHoop_def createHoop_def Let_def)

lemma sqrt_centre: "sqrt (6640929 / 40000 :: real) = 2577 / 200"
  by (rule real_sqrt_unique) (simp_all add: power2_eq_square)

lemma sqrt_49: "sqrt (49 :: real) = 7"
  by (rule real_sqrt_unique) (simp_all add: power2_eq_square)

subsection \<open>Inputs while a shot is in flight\<close>

text \<open>
  C10. While \<open>isShooting\<close> is true, handleInput returns at once and so does shootBall: the
  whole state, so also ballPosition, shotPower, shotAttempts and ballVelocity, is unchanged.
\<close>

theorem inputs_inert_while_shooting:
  "isShooting s \<Longrightarrow> handleInput deltaTime s = s \<and> shootBall distTo s = s"
  by (simp add: handleInput_def shootBall_def)

theorem inputs_inert_while_shooting_witness:
  "isShooting (initialGameState \<lparr> isShooting := True \<rparr>) \<and>
   handleInput 0.016 (initialGameState \<lparr> isShooting := True \<rparr>) =
     initialGameState \<lparr> isShooting := True \<rparr> \<and>
   shootBall distanceTo (initialGameState \<lparr> isShooting := True \<rparr>) =
     initialGameState \<lparr> isShooting := True \<rparr>"
  using inputs_inert_while_shooting
          [of "initialGameState \<lparr> isShooting := True \<rparr>" "0.016" distanceTo]
  by simp

subsection \<open>The released velocity\<close>

text \<open>
  C3. A shot from a grounded ball (\<open>isShooting\<close> false) aims at the rim centre of the right
  or of the left hoop, the one that the comparison of the two computed distances selects:
  when each computed distance is within \<open>err\<close> of the exact one, no rim centre is nearer to
  the ball by more than \<open>2 * err\<close> (with \<open>err = 0\<close> the target is the nearest rim centre).
  The ball is released with the constant-acceleration solution towards the target for the
  flight time \<open>T = 1.6\<close> under \<open>g = -9.8\<close>, every component multiplied by
  \<open>errorFactor = 1 + (shotPower - idealPower) * 0.4\<close>, where
  \<open>idealPower = 0.1 + min 1 (horizontalDistance / 25) * (1.0 - 0.1)\<close>.
\<close>

theorem shootBall_velocity:
  assumes "\<not> isShooting s"
    and "\<bar>distTo (ballPosition s) rightRimCentre - distanceTo (ballPosition s) rightRimCentre\<bar> \<le> err"
    and "\<bar>distTo (ballPosition s) leftRimCentre - distanceTo (ballPosition s) leftRimCentre\<bar> \<le> err"
  shows "localToWorld rightHoop (rimPosition rightHoop) = rightRimCentre \<and>
     localToWorld leftHoop (rimPosition leftHoop) = leftRimCentre \<and>
     distanceTo (ballPosition s) (targetRimCentre distTo (ballPosition s))
       \<le> distanceTo (ballPosition s) rightRimCentre + 2 * err \<and>
     distanceTo (ballPosition s) (targetRimCentre distTo (ballPosition s))
       \<le> distanceTo (ballPosition s) leftRimCentre + 2 * err \<and>
     ballVelocity (shootBall distTo s) =
     (let toHoop = sub (targetRimCentre distTo (ballPosition s)) (ballPosition s);
          T = 1.6;
          g = - 9.8;
          horizontalDistance = sqrt (vec_x toHoop * vec_x toHoop + vec_z toHoop * vec_z toHoop);
          idealPower = 0.1 + min 1 (horizontalDistance / 25) * (1.0 - 0.1);
          errorFactor = 1 + (shotPower s - idealPower) * 0.4
      in Vector3 (vec_x toHoop / T * errorFactor)
                 ((vec_y toHoop - 0.5 * g * T * T) / T * errorFactor)
                 (vec_z toHoop / T * errorFactor))"
proof -
  have near:
    "distanceTo (ballPosition s) (targetRimCentre distTo (ballPosition s))
       \<le> distanceTo (ballPosition s) rightRimCentre + 2 * err \<and>
     distanceTo (ballPosition s) (targetRimCentre distTo (ballPosition s))
       \<le> distanceTo (ballPosition s) leftRimCentre + 2 * err"
  proof (cases "distTo (ballPosition s) rightRimCentre < distTo (ballPosition s) leftRimCentre")
    case True
    then have t: "targetRimCentre distTo (ballPosition s) = rightRimCentre"
      by (simp add: targetRimCentre_def)
    from True assms(2,3) show ?thesis
      unfolding t by linarith
  next
    case False
    then have t: "targetRimCentre distTo (ballPosition s) = leftRimCentre"
      by (simp add: targetRimCentre_def)
    from False assms(2,3) show ?thesis
      unfolding t by linarith
  qed
  have vel: "ballVelocity (shootBall distTo s) =
     (let toHoop = sub (targetRimCentre distTo (ballPosition s)) (ballPosition s);
          T = 1.6;
          g = - 9.8;
          horizontalDistance = sqrt (vec_x toHoop * vec_x toHoop + vec_z toHoop * vec_z toHoop);
          idealPower = 0.1 + min 1 (horizontalDistance / 25) * (1.0 - 0.1);
          errorFactor = 1 + (shotPower s - idealPower) * 0.4
      in Vector3 (vec_x toHoop / T * errorFactor)
                 ((vec_y toHoop - 0.5 * g * T * T) / T * errorFactor)
                 (vec_z toHoop / T * errorFactor))"
    using assms(1)
    by (simp add: shootBall_def targetRimCentre_def rightRim_world leftRim_world
          rightRimCentre_def Let_def multiplyScalar_def const_defs)
  from near vel show ?thesis
    by (simp add: rightRim_world leftRim_world rightRimCentre_def)
qed

theorem shootBall_velocity_witness:
  "\<not> isShooting (initialGameState \<lparr> ballPosition := scenarioD_origin \<rparr>) \<and>
   \<bar>distanceTo scenarioD_origin rightRimCentre - distanceTo scenarioD_origin rightRimCentre\<bar> \<le> 0 \<and>
   \<bar>distanceTo scenarioD_origin leftRimCentre - distanceTo scenarioD_origin leftRimCentre\<bar> \<le> 0 \<and>
   targetRimCentre distanceTo scenarioD_origin = rightRimCentre \<and>
   distanceTo scenarioD_origin rightRimCentre \<le> distanceTo scenarioD_origin leftRimCentre \<and>
   ballVelocity (shootBall distanceTo (initialGameState \<lparr> ballPosition := scenarioD_origin \<rparr>)) =
     Vector3 (7 / 1.6 * 1.0592) ((2.9187 + 12.544) / 1.6 * 1.0592) 0"
proof -
  have t: "targetRimCentre distanceTo (Vector3 (1177 / 200) (1313 / 10000) 0) =
             Vector3 (2577 / 200) (61 / 20) 0"
    by (simp add: targetRimCentre_def distanceTo_def length_v_def sub_def rightRimCentre_def
          leftRimCentre_def)
  show ?thesis
    using shootBall_velocity
            [of "initialGameState \<lparr> ballPosition := scenarioD_origin \<rparr>" distanceTo 0]
    by (simp add: initialGameState_def scenarioD_origin_def rightRimCentre_def const_defs t
          sub_def sqrt_49 distanceTo_def length_v_def leftRimCentre_def)
qed

subsection \<open>Three-point classification\<close>

text \<open>
  C5. isThreePointShot holds exactly when the horizontal distance from the origin to the
  target is at least 6.75 and the origin is within the straight-line bound in z
  (\<open>COURT_WIDTH / 2 - 0.9\<close>) or at least 6.75 from the target along x. shootBall stores
  the ball position as the origin and this classification, for the rim centre it aims at,
  in \<open>isThreePointer\<close>. An origin at horizontal distance 7.0 within the z bound is a
  three-pointer.
\<close>

theorem isThreePointShot_spec:
  "(isThreePointShot p t \<longleftrightarrow>
      sqrt ((vec_x p - vec_x t)\<^sup>2 + (vec_z p - vec_z t)\<^sup>2) \<ge> 6.75 \<and>
      (\<bar>vec_z p\<bar> \<le> COURT_WIDTH / 2 - 0.9 \<or> \<bar>vec_x p - vec_x t\<bar> \<ge> 6.75)) \<and>
   (\<not> isShooting s \<longrightarrow>
      isThreePointer (shootBall distTo s) =
        isThreePointShot (ballPosition s) (targetRimCentre distTo (ballPosition s)) \<and>
      shotOrigin (shootBall distTo s) = ballPosition s) \<and>
   (sqrt ((vec_x p - vec_x t)\<^sup>2 + (vec_z p - vec_z t)\<^sup>2) = 7.0 \<and>
    \<bar>vec_z p\<bar> \<le> COURT_WIDTH / 2 - 0.9 \<longrightarrow> isThreePointShot p t)"
  by (simp add: isThreePointShot_def shootBall_def targetRimCentre_def rightRim_world
        leftRim_world rightRimCentre_def Let_def)

theorem isThreePointShot_spec_witness:
  "\<not> isShooting (initialGameState \<lparr> ballPosition := scenarioD_origin \<rparr>) \<and>
   sqrt ((vec_x scenarioD_origin - 12.885)\<^sup>2 + (vec_z scenarioD_origin - 0)\<^sup>2) = 7.0 \<and>
   \<bar>vec_z scenarioD_origin\<bar> \<le> COURT_WIDTH / 2 - 0.9 \<and>
   targetRimCentre distanceTo scenarioD_origin = Vector3 12.885 3.05 0 \<and>
   isThreePointShot scenarioD_origin (Vector3 12.885 3.05 0) \<and>
   isThreePointer (shootBall distanceTo (initialGameState \<lparr> ballPosition := scenarioD_origin \<rparr>))"
  using isThreePointShot_spec [of scenarioD_origin "Vector3 12.885 3.05 0"
          "initialGameState \<lparr> ballPosition := scenarioD_origin \<rparr>" distanceTo]
  apply (simp add: initialGameState_def scenarioD_origin_def const_defs power2_eq_square)
  apply (simp add: targetRimCentre_def distanceTo_def length_v_def sub_def rightRimCentre_def
           leftRimCentre_def)
  done


subsection \<open>Fields that the input handling and the grounded frame leave alone\<close>

lemma run_Nil [simp]: "run distTo s [] = s"
  by (simp add: run_def)

lemma run_Cons [simp]: "run distTo s (e # es) = run distTo (step distTo s e) es"
  by (simp add: run_def)

lemma handleMovement_scoring [simp]:
  "isShooting (handleMovement dt s) = isShooting s"
  "lastShotResult (handleMovement dt s) = lastShotResult s"
  "shotFeedbackTimer (handleMovement dt s) = shotFeedbackTimer s"
  "score (handleMovement dt s) = score s"
  "shotsMade (handleMovement dt s) = shotsMade s"
  "shotAttempts (handleMovement dt s) = shotAttempts s"
  by (simp_all add: handleMovement_def Let_def)

lemma handlePowerUp_scoring [simp]:
  "isShooting (handlePowerUp s) = isShooting s"
  "lastShotResult (handlePowerUp s) = lastShotResult s"
  "shotFeedbackTimer (handlePowerUp s) = shotFeedbackTimer s"
  "score (handlePowerUp s) = score s"
  "shotsMade (handlePowerUp s) = shotsMade s"
  "shotAttempts (handlePowerUp s) = shotAttempts s"
  "ballPosition (handlePowerUp s) = ballPosition s"
  by (simp_all add: handlePowerUp_def)

lemma handlePowerDown_scoring [simp]:
  "isShooting (handlePowerDown s) = isShooting s"
  "lastShotResult (handlePowerDown s) = lastShotResult s"
  "shotFeedbackTimer (handlePowerDown s) = shotFeedbackTimer s"
  "score (handlePowerDown s) = score s"
  "shotsMade (handlePowerDown s) = shotsMade s"
  "shotAttempts (handlePowerDown s) = shotAttempts s"
  "ballPosition (handlePowerDown s) = ballPosition s"
  by (simp_all add: handlePowerDown_def)

lemma handleInput_scoring [simp]:
  "isShooting (handleInput dt s) = isShooting s"
  "lastShotResult (handleInput dt s) = lastShotResult s"
  "shotFeedbackTimer (handleInput dt s) = shotFeedbackTimer s"
  "score (handleInput dt s) = score s"
  "shotsMade (handleInput dt s) = shotsMade s"
  "shotAttempts (handleInput dt s) = shotAttempts s"
  by (simp_all add: handleInput_def)

lemma updateBallPhysics_grounded:
  "\<not> isShooting s \<Longrightarrow> updateBallPhysics dt s = s \<lparr> lastBallPosition := ballPosition s \<rparr>"
  by (simp add: updateBallPhysics_def Let_def)

lemma animate_grounded:
  assumes "\<not> isShooting s"
  shows "isShooting (animate dt s) = False"
    and "shotFeedbackTimer (animate dt s) =
           (if shotFeedbackTimer s > 0 then shotFeedbackTimer s - dt else shotFeedbackTimer s)"
    and "lastShotResult (animate dt s) =
           (if shotFeedbackTimer s > 0 \<and> shotFeedbackTimer s - dt \<le> 0 \<and> lastShotResult s = ''''
            then ''missed'' else lastShotResult s)"
  using assms
  by (simp_all add: animate_def updateBallPhysics_grounded shotFeedbackTimeout_def Let_def)

lemma key_grounded:
  assumes "key \<noteq> ''Space''" "key \<noteq> ''KeyR''"
  shows "isShooting (onKeyDown distTo key s) = isShooting s"
    and "shotFeedbackTimer (onKeyDown distTo key s) = shotFeedbackTimer s"
    and "lastShotResult (onKeyDown distTo key s) = lastShotResult s"
  using assms by (simp_all add: onKeyDown_def Let_def)

lemma keyUp_fields [simp]:
  "isShooting (onKeyUp key s) = isShooting s"
  "shotFeedbackTimer (onKeyUp key s) = shotFeedbackTimer s"
  "lastShotResult (onKeyUp key s) = lastShotResult s"
  "score (onKeyUp key s) = score s"
  "shotsMade (onKeyUp key s) = shotsMade s"
  "shotAttempts (onKeyUp key s) = shotAttempts s"
  "ballPosition (onKeyUp key s) = ballPosition s"
  by (simp_all add: onKeyUp_def)

subsection \<open>Reset during a shot\<close>

lemma missed_stays:
  "\<not> isShooting s \<Longrightarrow> shotFeedbackTimer s \<le> 0 \<Longrightarrow> lastShotResult s = ''missed'' \<Longrightarrow>
   noShootOrReset es \<Longrightarrow> lastShotResult (run distTo s es) = ''missed''"
proof (induction es arbitrary: s)
  case Nil
  then show ?case by simp
next
  case (Cons e es)
  show ?case
  proof (cases e)
    case (Frame dt)
    with Cons.prems show ?thesis
      by (simp add: Cons.IH animate_grounded)
  next
    case (KeyDown key)
    with Cons.prems show ?thesis
      by (simp add: Cons.IH key_grounded)
  next
    case (KeyUp key)
    with Cons.prems show ?thesis
      by (simp add: Cons.IH)
  qed
qed

lemma timer_expires_grounded:
  "\<not> isShooting s \<Longrightarrow> lastShotResult s = '''' \<Longrightarrow> 0 < shotFeedbackTimer s \<Longrightarrow>
   shotFeedbackTimer s \<le> frameTime es \<Longrightarrow> noShootOrReset es \<Longrightarrow>
   lastShotResult (run distTo s es) = ''missed''"
proof (induction es arbitrary: s)
  case Nil
  then show ?case by simp
next
  case (Cons e es)
  show ?case
  proof (cases e)
    case (Frame dt)
    show ?thesis
    proof (cases "shotFeedbackTimer s - dt \<le> 0")
      case True
      with Cons.prems Frame have "lastShotResult (run distTo (animate dt s) es) = ''missed''"
        by (intro missed_stays) (simp_all add: animate_grounded)
      with Frame show ?thesis by simp
    next
      case False
      with Cons.prems Frame have "lastShotResult (run distTo (animate dt s) es) = ''missed''"
        by (intro Cons.IH) (simp_all add: animate_grounded)
      with Frame show ?thesis by simp
    qed
  next
    case (KeyDown key)
    with Cons.prems show ?thesis
      by (simp add: Cons.IH key_grounded)
  next
    case (KeyUp key)
    with Cons.prems show ?thesis
      by (simp add: Cons.IH)
  qed
qed

text \<open>
  C9. resetBall leaves the feedback timer, the score, the attempts and the made shots as
  they are. So when a shot in flight with a pending result is reset while its timer still
  runs, and the frames that follow (with no new shot and no further reset) add up to the
  remaining time, the result of the aborted shot becomes \<open>'missed'\<close>.
\<close>

theorem resetBall_timer_still_runs:
  "shotFeedbackTimer (resetBall s) = shotFeedbackTimer s \<and>
   score (resetBall s) = score s \<and>
   shotAttempts (resetBall s) = shotAttempts s \<and>
   shotsMade (resetBall s) = shotsMade s \<and>
   (isShooting s \<and> lastShotResult s = '''' \<and> 0 < shotFeedbackTimer s \<and>
    shotFeedbackTimer s \<le> frameTime es \<and> noShootOrReset es \<longrightarrow>
      lastShotResult (run distTo (resetBall s) es) = ''missed'')"
proof -
  have "lastShotResult (run distTo (resetBall s) es) = ''missed''"
    if "0 < shotFeedbackTimer s" "shotFeedbackTimer s \<le> frameTime es" "noShootOrReset es"
    using that by (intro timer_expires_grounded) (simp_all add: resetBall_def)
  then show ?thesis by (simp add: resetBall_def)
qed

theorem resetBall_timer_still_runs_witness:
  "isShooting abortedShot_state \<and> lastShotResult abortedShot_state = '''' \<and>
   shotFeedbackTimer abortedShot_state = 2.1 \<and>
   shotFeedbackTimer (resetBall abortedShot_state) = 2.1 \<and>
   frameTime [Frame 1, KeyDown ''ArrowLeft'', Frame 1.5] = 2.5 \<and>
   noShootOrReset [Frame 1, KeyDown ''ArrowLeft'', Frame 1.5] \<and>
   lastShotResult (run distanceTo (resetBall abortedShot_state)
                     [Frame 1, KeyDown ''ArrowLeft'', Frame 1.5]) = ''missed''"
  using resetBall_timer_still_runs
          [of abortedShot_state "[Frame 1, KeyDown ''ArrowLeft'', Frame 1.5]" distanceTo]
  by (simp add: abortedShot_state_def initialGameState_def)

subsection \<open>Hoop geometry, the made-basket test and the rim bounce\<close>

lemma sqrt_less_iff: "0 < c \<Longrightarrow> (sqrt a < c) = (a < c\<^sup>2)"
  by (metis real_sqrt_less_iff real_sqrt_abs abs_of_pos)

lemma less_sqrt_iff: "0 \<le> c \<Longrightarrow> (c < sqrt a) = (c\<^sup>2 < a)"
  by (metis real_sqrt_less_iff real_sqrt_abs abs_of_nonneg)

lemma abs_le_hd1: "\<bar>a\<bar> \<le> sqrt (a * a + b * b)"
proof -
  have "sqrt (a * a) \<le> sqrt (a * a + b * b)"
    by (rule real_sqrt_le_mono) simp
  then show ?thesis by simp
qed

lemma abs_le_hd2: "\<bar>b\<bar> \<le> sqrt (a * a + b * b)"
  using abs_le_hd1 [of b a] by (simp add: add.commute)

lemma far_apart:
  assumes "sqrt ((x + c) * (x + c) + z * z) < 1" and "1 \<le> c"
  shows "1 < sqrt ((x - c) * (x - c) + z' * z')"
proof -
  have "\<bar>x + c\<bar> < 1"
    using abs_le_hd1 [of "x + c" z] assms(1) by linarith
  then have "1 < \<bar>x - c\<bar>"
    using assms(2) by linarith
  then show ?thesis
    using abs_le_hd1 [of "x - c" z'] by linarith
qed

lemma far_apart':
  assumes "sqrt ((x - c) * (x - c) + z * z) < 1" and "1 \<le> c"
  shows "1 < sqrt ((x + c) * (x + c) + z' * z')"
proof -
  have "\<bar>x - c\<bar> < 1"
    using abs_le_hd1 [of "x - c" z] assms(1) by linarith
  then have "1 < \<bar>x + c\<bar>"
    using assms(2) by linarith
  then show ?thesis
    using abs_le_hd1 [of "x + c" z'] by linarith
qed

text \<open>The two tests of checkHoopCollision at the two hoops, in world coordinates.\<close>

lemma madeBasketTest_right:
  "madeBasketTest rightHoop s \<longleftrightarrow>
     sqrt ((vec_x (ballPosition s) - 12.885) * (vec_x (ballPosition s) - 12.885) +
           vec_z (ballPosition s) * vec_z (ballPosition s)) < 0.16435 \<and>
     \<bar>vec_y (ballPosition s) - 3.05\<bar> < 0.1213 \<and> vec_y (ballVelocity s) < 0"
  by (simp add: madeBasketTest_def rightRim_world Let_def sub_def const_defs)

lemma madeBasketTest_left:
  "madeBasketTest leftHoop s \<longleftrightarrow>
     sqrt ((vec_x (ballPosition s) + 12.885) * (vec_x (ballPosition s) + 12.885) +
           (vec_z (ballPosition s) - vec_z leftRimCentre) *
           (vec_z (ballPosition s) - vec_z leftRimCentre)) < 0.16435 \<and>
     \<bar>vec_y (ballPosition s) - 3.05\<bar> < 0.1213 \<and> vec_y (ballVelocity s) < 0"
  by (simp add: madeBasketTest_def leftRim_world Let_def sub_def const_defs)

lemma rimCollisionTest_right:
  "rimCollisionTest rightHoop s \<longleftrightarrow>
     \<bar>vec_y (ballPosition s) - 3.05\<bar> < 0.1463 \<and>
     0.1037 < sqrt ((vec_x (ballPosition s) - 12.885) * (vec_x (ballPosition s) - 12.885) +
                    vec_z (ballPosition s) * vec_z (ballPosition s)) \<and>
     sqrt ((vec_x (ballPosition s) - 12.885) * (vec_x (ballPosition s) - 12.885) +
           vec_z (ballPosition s) * vec_z (ballPosition s)) < 0.25"
  by (simp add: rimCollisionTest_def rightRim_world Let_def sub_def const_defs)

lemma rimCollisionTest_left:
  "rimCollisionTest leftHoop s \<longleftrightarrow>
     \<bar>vec_y (ballPosition s) - 3.05\<bar> < 0.1463 \<and>
     0.1037 < sqrt ((vec_x (ballPosition s) + 12.885) * (vec_x (ballPosition s) + 12.885) +
                    (vec_z (ballPosition s) - vec_z leftRimCentre) *
                    (vec_z (ballPosition s) - vec_z leftRimCentre)) \<and>
     sqrt ((vec_x (ballPosition s) + 12.885) * (vec_x (ballPosition s) + 12.885) +
           (vec_z (ballPosition s) - vec_z leftRimCentre) *
           (vec_z (ballPosition s) - vec_z leftRimCentre)) < 0.25"
  by (simp add: rimCollisionTest_def leftRim_world Let_def sub_def const_defs)

lemma right_close_left_idle:
  assumes "sqrt ((vec_x (ballPosition s) - 12.885) * (vec_x (ballPosition s) - 12.885) +
                 vec_z (ballPosition s) * vec_z (ballPosition s)) < 1"
  shows "\<not> madeBasketTest leftHoop s \<and> \<not> rimCollisionTest leftHoop s"
proof -
  define l where "l = sqrt ((vec_x (ballPosition s) + 12.885) * (vec_x (ballPosition s) + 12.885) +
                            (vec_z (ballPosition s) - vec_z leftRimCentre) *
                            (vec_z (ballPosition s) - vec_z leftRimCentre))"
  from assms have "1 < l"
    unfolding l_def by (rule far_apart') simp
  then show ?thesis
    unfolding madeBasketTest_left rimCollisionTest_left l_def [symmetric] by auto
qed

lemma left_close_right_idle:
  assumes "sqrt ((vec_x (ballPosition s) + 12.885) * (vec_x (ballPosition s) + 12.885) +
                 (vec_z (ballPosition s) - vec_z leftRimCentre) *
                 (vec_z (ballPosition s) - vec_z leftRimCentre)) < 1"
  shows "\<not> madeBasketTest rightHoop s \<and> \<not> rimCollisionTest rightHoop s"
proof -
  define r where "r = sqrt ((vec_x (ballPosition s) - 12.885) * (vec_x (ballPosition s) - 12.885) +
                            vec_z (ballPosition s) * vec_z (ballPosition s))"
  from assms have "1 < r"
    unfolding r_def by (rule far_apart) simp
  then show ?thesis
    unfolding madeBasketTest_right rimCollisionTest_right r_def [symmetric] by auto
qed

lemma near_left_far_right:
  assumes "madeBasketTest leftHoop s \<or> rimCollisionTest leftHoop s"
  shows "\<not> madeBasketTest rightHoop s \<and> \<not> rimCollisionTest rightHoop s"
proof -
  define l where "l = sqrt ((vec_x (ballPosition s) + 12.885) * (vec_x (ballPosition s) + 12.885) +
                            (vec_z (ballPosition s) - vec_z leftRimCentre) *
                            (vec_z (ballPosition s) - vec_z leftRimCentre))"
  from assms have "l < 1"
    unfolding madeBasketTest_left rimCollisionTest_left l_def [symmetric] by auto
  from this [unfolded l_def] show ?thesis
    by (rule left_close_right_idle)
qed

lemma near_right_far_left:
  "madeBasketTest rightHoop s \<or> rimCollisionTest rightHoop s \<Longrightarrow>
   \<not> madeBasketTest leftHoop s \<and> \<not> rimCollisionTest leftHoop s"
  using near_left_far_right [of s] by blast

lemma scoreBasket_fields [simp]:
  "ballVelocity (scoreBasket hoop s) = ballVelocity s"
  "ballPosition (scoreBasket hoop s) = ballPosition s"
  "isShooting (scoreBasket hoop s) = isShooting s"
  "shotAttempts (scoreBasket hoop s) = shotAttempts s"
  "shotFeedbackTimer (scoreBasket hoop s) = shotFeedbackTimer s"
  "isThreePointer (scoreBasket hoop s) = isThreePointer s"
  by (simp_all add: scoreBasket_def Let_def)

lemma rimBounce_fields [simp]:
  "score (rimBounce hoop s) = score s"
  "shotsMade (rimBounce hoop s) = shotsMade s"
  "lastShotResult (rimBounce hoop s) = lastShotResult s"
  "isShooting (rimBounce hoop s) = isShooting s"
  "shotAttempts (rimBounce hoop s) = shotAttempts s"
  "shotFeedbackTimer (rimBounce hoop s) = shotFeedbackTimer s"
  "isThreePointer (rimBounce hoop s) = isThreePointer s"
  by (simp_all add: rimBounce_def Let_def)

lemma rimBounce_pops_up: "0.5 \<le> vec_y (ballVelocity (rimBounce hoop s))"
  by (simp add: rimBounce_def Let_def set_y_def)

lemma hoopCollisionOf_scoring:
  "shotsMade (hoopCollisionOf hoop s) =
     shotsMade s + (if madeBasketTest hoop s \<and> lastShotResult s \<noteq> ''made'' then 1 else 0)"
  "score (hoopCollisionOf hoop s) =
     score s + (if madeBasketTest hoop s \<and> lastShotResult s \<noteq> ''made''
                then (if isThreePointer s then 3 else 2) else 0)"
  "lastShotResult (hoopCollisionOf hoop s) =
     (if madeBasketTest hoop s then ''made'' else lastShotResult s)"
  by (simp_all add: hoopCollisionOf_def scoreBasket_def Let_def)

lemma hoopCollisionOf_fields [simp]:
  "isShooting (hoopCollisionOf hoop s) = isShooting s"
  "shotAttempts (hoopCollisionOf hoop s) = shotAttempts s"
  "shotFeedbackTimer (hoopCollisionOf hoop s) = shotFeedbackTimer s"
  "isThreePointer (hoopCollisionOf hoop s) = isThreePointer s"
  by (simp_all add: hoopCollisionOf_def)

lemma hoopCollisionOf_idle:
  "\<not> madeBasketTest hoop s \<Longrightarrow> \<not> rimCollisionTest hoop s \<Longrightarrow> hoopCollisionOf hoop s = s"
  by (simp add: hoopCollisionOf_def)

lemma madeBasketTest_cong:
  "ballPosition s' = ballPosition s \<Longrightarrow> ballVelocity s' = ballVelocity s \<Longrightarrow>
   madeBasketTest hoop s' = madeBasketTest hoop s"
  by (simp add: madeBasketTest_def)

lemma rimCollisionTest_cong:
  "ballPosition s' = ballPosition s \<Longrightarrow> rimCollisionTest hoop s' = rimCollisionTest hoop s"
  by (simp add: rimCollisionTest_def)

lemma rimCollisionTest_nonzero:
  assumes "rimCollisionTest hoop s"
  shows "0 < length_v (Vector3 (vec_x (sub (ballPosition s) (localToWorld hoop (rimPosition hoop)))) 0
                               (vec_z (sub (ballPosition s) (localToWorld hoop (rimPosition hoop)))))"
proof -
  define X where
    "X = vec_x (sub (ballPosition s) (localToWorld hoop (rimPosition hoop))) *
         vec_x (sub (ballPosition s) (localToWorld hoop (rimPosition hoop))) +
         vec_z (sub (ballPosition s) (localToWorld hoop (rimPosition hoop))) *
         vec_z (sub (ballPosition s) (localToWorld hoop (rimPosition hoop)))"
  from assms have "RIM_RADIUS - BALL_RADIUS < sqrt X"
    unfolding rimCollisionTest_def Let_def X_def by simp
  moreover have "0 < RIM_RADIUS - BALL_RADIUS"
    by (simp add: const_defs)
  ultimately have "0 < sqrt X"
    by linarith
  then show ?thesis
    by (simp add: length_v_def X_def)
qed

text \<open>
  C8. When the rim test of a hoop holds, the horizontal vector from the rim centre to the
  ball has non-zero length, so the normal of the rim bounce is never the zero vector. With
  the ball exactly above or below a rim centre (that vector is zero) the rim test fails, the
  step for that hoop leaves the velocity as it is, and so does checkHoopCollision over both
  hoops.
\<close>

theorem rim_centre_velocity_unchanged:
  "(rimCollisionTest hoop s \<longrightarrow>
      length_v (Vector3 (vec_x (sub (ballPosition s) (localToWorld hoop (rimPosition hoop)))) 0
                        (vec_z (sub (ballPosition s) (localToWorld hoop (rimPosition hoop))))) \<noteq> 0) \<and>
   (vec_x (ballPosition s) = vec_x (localToWorld hoop (rimPosition hoop)) \<and>
    vec_z (ballPosition s) = vec_z (localToWorld hoop (rimPosition hoop)) \<longrightarrow>
      \<not> rimCollisionTest hoop s \<and>
      ballVelocity (hoopCollisionOf hoop s) = ballVelocity s) \<and>
   ((hoop = rightHoop \<or> hoop = leftHoop) \<and>
    vec_x (ballPosition s) = vec_x (localToWorld hoop (rimPosition hoop)) \<and>
    vec_z (ballPosition s) = vec_z (localToWorld hoop (rimPosition hoop)) \<longrightarrow>
      ballVelocity (checkHoopCollision s) = ballVelocity s)"
proof -
  have nz: "length_v (Vector3 (vec_x (sub (ballPosition s) (localToWorld hoop (rimPosition hoop)))) 0
                        (vec_z (sub (ballPosition s) (localToWorld hoop (rimPosition hoop))))) \<noteq> 0"
    if "rimCollisionTest hoop s"
    using rimCollisionTest_nonzero [OF that] by simp
  have centre: "\<not> rimCollisionTest h s"
    if "vec_x (ballPosition s) = vec_x (localToWorld h (rimPosition h))"
       "vec_z (ballPosition s) = vec_z (localToWorld h (rimPosition h))" for h
    using that by (simp add: rimCollisionTest_def Let_def sub_def const_defs)
  have one: "ballVelocity (hoopCollisionOf h s) = ballVelocity s"
    if "\<not> rimCollisionTest h s" for h s
    using that by (simp add: hoopCollisionOf_def)
  have both: "ballVelocity (checkHoopCollision s) = ballVelocity s"
    if r: "\<not> rimCollisionTest rightHoop s" and l: "\<not> rimCollisionTest leftHoop s"
  proof -
    have "\<not> rimCollisionTest leftHoop (hoopCollisionOf rightHoop s)"
      using r l by (simp add: hoopCollisionOf_def rimCollisionTest_cong [of "scoreBasket rightHoop s" s])
    then show ?thesis
      using r by (simp add: checkHoopCollision_def one)
  qed
  have right: "ballVelocity (checkHoopCollision s) = ballVelocity s"
    if c: "vec_x (ballPosition s) = 12.885" "vec_z (ballPosition s) = 0"
  proof (rule both)
    show "\<not> rimCollisionTest rightHoop s"
      using c by (intro centre) (simp_all add: rightRim_world)
    show "\<not> rimCollisionTest leftHoop s"
      using c right_close_left_idle [of s] by simp
  qed
  have left: "ballVelocity (checkHoopCollision s) = ballVelocity s"
    if c: "vec_x (ballPosition s) = - 12.885" "vec_z (ballPosition s) = vec_z leftRimCentre"
  proof (rule both)
    show "\<not> rimCollisionTest leftHoop s"
      using c by (intro centre) (simp_all add: leftRim_world)
    show "\<not> rimCollisionTest rightHoop s"
      using c left_close_right_idle [of s] by simp
  qed
  show ?thesis
    using nz centre [of hoop] one [of hoop s] right left
    by (auto simp: rightRim_world leftRim_world)
qed

lemma checkHoopCollision_made:
  assumes "madeBasketTest rightHoop s \<or> madeBasketTest leftHoop s"
  shows "score (checkHoopCollision s) =
           score s + (if lastShotResult s \<noteq> ''made'' then (if isThreePointer s then 3 else 2) else 0)"
    and "shotsMade (checkHoopCollision s) =
           shotsMade s + (if lastShotResult s \<noteq> ''made'' then 1 else 0)"
    and "lastShotResult (checkHoopCollision s) = ''made''"
proof -
  show "score (checkHoopCollision s) =
           score s + (if lastShotResult s \<noteq> ''made'' then (if isThreePointer s then 3 else 2) else 0)"
  proof (cases "madeBasketTest rightHoop s")
    case True
    then show ?thesis
      by (simp add: checkHoopCollision_def hoopCollisionOf_scoring)
  next
    case False
    with assms have l: "madeBasketTest leftHoop s" by simp
    with near_left_far_right [of s] have "hoopCollisionOf rightHoop s = s"
      by (simp add: hoopCollisionOf_idle)
    with l show ?thesis
      by (simp add: checkHoopCollision_def hoopCollisionOf_scoring)
  qed
  show "shotsMade (checkHoopCollision s) =
           shotsMade s + (if lastShotResult s \<noteq> ''made'' then 1 else 0)"
  proof (cases "madeBasketTest rightHoop s")
    case True
    then show ?thesis
      by (simp add: checkHoopCollision_def hoopCollisionOf_scoring)
  next
    case False
    with assms have l: "madeBasketTest leftHoop s" by simp
    with near_left_far_right [of s] have "hoopCollisionOf rightHoop s = s"
      by (simp add: hoopCollisionOf_idle)
    with l show ?thesis
      by (simp add: checkHoopCollision_def hoopCollisionOf_scoring)
  qed
  show "lastShotResult (checkHoopCollision s) = ''made''"
  proof (cases "madeBasketTest rightHoop s")
    case True
    then show ?thesis
      by (simp add: checkHoopCollision_def hoopCollisionOf_scoring)
  next
    case False
    with assms have l: "madeBasketTest leftHoop s" by simp
    with near_left_far_right [of s] have "hoopCollisionOf rightHoop s = s"
      by (simp add: hoopCollisionOf_idle)
    with l show ?thesis
      by (simp add: checkHoopCollision_def hoopCollisionOf_scoring)
  qed
qed

text \<open>
  C1, as the code has it. When the feedback time runs out with the result still empty the
  result becomes \<open>'missed'\<close>. When the made-basket test then holds for a hoop on a state whose
  result is \<open>'missed'\<close>, checkHoopCollision adds 2 or 3 to the score and 1 to the made shots
  and sets the result to \<open>'made'\<close>: scoreBasket is skipped only when the result is already
  \<open>'made'\<close>.
\<close>

theorem late_make_still_counts:
  "(0 < shotFeedbackTimer s \<and> shotFeedbackTimer s \<le> deltaTime \<and> lastShotResult s = '''' \<longrightarrow>
      lastShotResult (shotFeedbackTimeout deltaTime s) = ''missed'') \<and>
   (lastShotResult s = ''missed'' \<and> (madeBasketTest rightHoop s \<or> madeBasketTest leftHoop s) \<longrightarrow>
      score (checkHoopCollision s) = score s + (if isThreePointer s then 3 else 2) \<and>
      shotsMade (checkHoopCollision s) = shotsMade s + 1 \<and>
      lastShotResult (checkHoopCollision s) = ''made'')"
proof -
  have "lastShotResult (shotFeedbackTimeout deltaTime s) = ''missed''"
    if "0 < shotFeedbackTimer s" "shotFeedbackTimer s \<le> deltaTime" "lastShotResult s = ''''"
    using that by (simp add: shotFeedbackTimeout_def Let_def)
  moreover have "score (checkHoopCollision s) = score s + (if isThreePointer s then 3 else 2) \<and>
      shotsMade (checkHoopCollision s) = shotsMade s + 1 \<and>
      lastShotResult (checkHoopCollision s) = ''made''"
    if "lastShotResult s = ''missed''" "madeBasketTest rightHoop s \<or> madeBasketTest leftHoop s"
    using that checkHoopCollision_made [of s] by simp
  ultimately show ?thesis by blast
qed

lemma rimBounce_not_made: "\<not> madeBasketTest hoop' (rimBounce hoop s)"
  using rimBounce_pops_up [of hoop s] by (simp add: madeBasketTest_def Let_def)

lemma ascending_no_score_one:
  assumes "0 \<le> vec_y (ballVelocity s)"
  shows "shotsMade (hoopCollisionOf hoop s) = shotsMade s"
    and "score (hoopCollisionOf hoop s) = score s"
    and "0 \<le> vec_y (ballVelocity (hoopCollisionOf hoop s))"
proof -
  from assms have n: "\<not> madeBasketTest hoop s"
    by (simp add: madeBasketTest_def Let_def)
  then show "shotsMade (hoopCollisionOf hoop s) = shotsMade s"
    and "score (hoopCollisionOf hoop s) = score s"
    by (simp_all add: hoopCollisionOf_scoring)
  show "0 \<le> vec_y (ballVelocity (hoopCollisionOf hoop s))"
    using n assms rimBounce_pops_up [of hoop s] by (simp add: hoopCollisionOf_def)
qed

lemma ascending_no_score:
  assumes "0 \<le> vec_y (ballVelocity s)"
  shows "shotsMade (checkHoopCollision s) = shotsMade s \<and> score (checkHoopCollision s) = score s"
  using ascending_no_score_one [OF assms, of rightHoop]
        ascending_no_score_one [of "hoopCollisionOf rightHoop s" leftHoop]
  by (simp add: checkHoopCollision_def)

lemma animate_staged:
  assumes "isShooting s"
      and "integrateBall dt (s \<lparr> lastBallPosition := ballPosition s \<rparr>) = a"
      and "groundCollision a = b"
      and "boundaryCollisionX b = c"
      and "boundaryCollisionZ c = d"
      and "rotateBall dt d = e"
      and "checkBackboardCollision e = f"
      and "checkHoopCollision f = g"
      and "shotFeedbackTimeout dt g = h"
  shows "animate dt s = h"
  using assms by (simp add: animate_def handleInput_def updateBallPhysics_def Let_def)

lemmas lateMake_defs =
  lateMake_state_def lateMake_frame1_def lateMake_atRim_def lateMake_frame2_def initialGameState_def

lemma sqrt_lateMake1: "sqrt (22201 / 2500 :: real) = 149 / 50"
  by (rule real_sqrt_unique) (simp_all add: power2_eq_square)

lemma sqrt_lateMake2: "sqrt (120409 / 10000 :: real) = 347 / 100"
  by (rule real_sqrt_unique) (simp_all add: power2_eq_square)

lemma lateMake_first_frame: "animate 0.1 lateMake_state = lateMake_frame1"
proof (rule animate_staged)
  let ?a = "lateMake_frame1 \<lparr> shotFeedbackTimer := 0.05, lastShotResult := '''' \<rparr>"
  show "isShooting lateMake_state"
    by (simp add: lateMake_defs)
  show "integrateBall 0.1 (lateMake_state \<lparr> lastBallPosition := ballPosition lateMake_state \<rparr>) = ?a"
    by (simp add: integrateBall_def lateMake_defs Let_def set_y_def multiplyScalar_def add_def const_defs)
  show "groundCollision ?a = ?a"
    by (simp add: groundCollision_def lateMake_defs const_defs)
  show "boundaryCollisionX ?a = ?a"
    by (simp add: boundaryCollisionX_def lateMake_defs const_defs Let_def)
  show "boundaryCollisionZ ?a = ?a"
    by (simp add: boundaryCollisionZ_def lateMake_defs const_defs Let_def)
  show "rotateBall 0.1 ?a = ?a"
    by (simp add: rotateBall_def lateMake_defs const_defs Let_def length_v_def normalize_def
          multiplyScalar_def add_def sqrt_lateMake1)
  show "checkBackboardCollision ?a = ?a"
    by (simp add: checkBackboardCollision_def backboardCollisionOf_def rightBackboard_world
          leftBackboard_world lateMake_defs const_defs Let_def sub_def)
  have "sqrt ((vec_x (ballPosition ?a) - 12.885) * (vec_x (ballPosition ?a) - 12.885) +
              vec_z (ballPosition ?a) * vec_z (ballPosition ?a)) < 1"
    by (simp add: lateMake_defs)
  from right_close_left_idle [OF this]
  show "checkHoopCollision ?a = ?a"
    by (simp add: checkHoopCollision_def hoopCollisionOf_def madeBasketTest_right
          rimCollisionTest_right) (simp add: lateMake_defs)
  show "shotFeedbackTimeout 0.1 ?a = lateMake_frame1"
    by (simp add: shotFeedbackTimeout_def lateMake_defs Let_def)
qed

lemma lateMake_second_frame: "animate 0.05 lateMake_frame1 = lateMake_frame2"
proof (rule animate_staged)
  let ?a = lateMake_atRim
  show "isShooting lateMake_frame1"
    by (simp add: lateMake_defs)
  show "integrateBall 0.05 (lateMake_frame1 \<lparr> lastBallPosition := ballPosition lateMake_frame1 \<rparr>) = ?a"
    by (simp add: integrateBall_def lateMake_defs Let_def set_y_def multiplyScalar_def add_def const_defs)
  show "groundCollision ?a = ?a"
    by (simp add: groundCollision_def lateMake_defs const_defs)
  show "boundaryCollisionX ?a = ?a"
    by (simp add: boundaryCollisionX_def lateMake_defs const_defs Let_def)
  show "boundaryCollisionZ ?a = ?a"
    by (simp add: boundaryCollisionZ_def lateMake_defs const_defs Let_def)
  show "rotateBall 0.05 ?a = ?a"
    by (simp add: rotateBall_def lateMake_defs const_defs Let_def length_v_def normalize_def
          multiplyScalar_def add_def sqrt_lateMake2)
  show "checkBackboardCollision ?a = ?a"
    by (simp add: checkBackboardCollision_def backboardCollisionOf_def rightBackboard_world
          leftBackboard_world lateMake_defs const_defs Let_def sub_def)
  have m: "madeBasketTest rightHoop ?a"
    by (simp add: madeBasketTest_right lateMake_defs)
  have "hoopCollisionOf rightHoop ?a = lateMake_frame2"
    using m by (simp add: hoopCollisionOf_def scoreBasket_def lateMake_defs)
  moreover have "hoopCollisionOf leftHoop lateMake_frame2 = lateMake_frame2"
  proof (rule hoopCollisionOf_idle)
    have "sqrt ((vec_x (ballPosition lateMake_frame2) - 12.885) *
                (vec_x (ballPosition lateMake_frame2) - 12.885) +
                vec_z (ballPosition lateMake_frame2) * vec_z (ballPosition lateMake_frame2)) < 1"
      by (simp add: lateMake_defs)
    from right_close_left_idle [OF this]
    show "\<not> madeBasketTest leftHoop lateMake_frame2" "\<not> rimCollisionTest leftHoop lateMake_frame2"
      by simp_all
  qed
  ultimately show "checkHoopCollision ?a = lateMake_frame2"
    by (simp add: checkHoopCollision_def)
  show "shotFeedbackTimeout 0.05 lateMake_frame2 = lateMake_frame2"
    by (simp add: shotFeedbackTimeout_def lateMake_defs Let_def)
qed

text \<open>
  A late make with short frames (C1). From a shot in flight above the right rim with 0.05 s of
  feedback time left, a frame of 0.1 s sets the result to \<open>'missed'\<close>; the next frame of
  0.05 s brings the ball into the scoring region falling, and the score and the made shots
  are incremented within the same attempt.
\<close>

theorem late_make_short_frames:
  "lastShotResult (run distanceTo lateMake_state [Frame 0.1]) = ''missed'' \<and>
   score (run distanceTo lateMake_state [Frame 0.1, Frame 0.05]) = score (run distanceTo lateMake_state [Frame 0.1]) + 2 \<and>
   shotsMade (run distanceTo lateMake_state [Frame 0.1, Frame 0.05]) =
     shotsMade (run distanceTo lateMake_state [Frame 0.1]) + 1 \<and>
   shotAttempts (run distanceTo lateMake_state [Frame 0.1, Frame 0.05]) = shotAttempts lateMake_state"
proof -
  have one: "run distanceTo lateMake_state [Frame 0.1] = lateMake_frame1"
    by (simp only: run_def foldl.simps step.simps lateMake_first_frame)
  have two: "run distanceTo lateMake_state [Frame 0.1, Frame 0.05] = lateMake_frame2"
    by (simp only: run_def foldl.simps step.simps lateMake_first_frame lateMake_second_frame)
  show ?thesis
    unfolding one two by (simp add: lateMake_defs)
qed

theorem late_make_still_counts_witness:
  "shotFeedbackTimer lateMake_state = 0.05 \<and> lastShotResult lateMake_state = '''' \<and>
   lastShotResult (shotFeedbackTimeout 0.1 lateMake_state) = ''missed'' \<and>
   lastShotResult lateMake_atRim = ''missed'' \<and>
   madeBasketTest rightHoop lateMake_atRim \<and>
   score (checkHoopCollision lateMake_atRim) = 2 \<and>
   shotsMade (checkHoopCollision lateMake_atRim) = 1"
  using late_make_still_counts [of lateMake_state "0.1"]
        late_make_still_counts [of lateMake_atRim "0.1"]
  by (simp add: madeBasketTest_right) (simp add: lateMake_defs)

lemma sqrt_fifth: "sqrt (1 / 25 :: real) = 1 / 5"
  by (rule real_sqrt_unique) (simp_all add: power2_eq_square)

theorem rim_centre_velocity_unchanged_witness:
  "rimCollisionTest rightHoop rimBand_state \<and>
   length_v (Vector3 (vec_x (sub (ballPosition rimBand_state) (Vector3 12.885 3.05 0))) 0
                     (vec_z (sub (ballPosition rimBand_state) (Vector3 12.885 3.05 0)))) \<noteq> 0 \<and>
   vec_x (ballPosition rimCentre_state) = 12.885 \<and> vec_z (ballPosition rimCentre_state) = 0 \<and>
   \<not> rimCollisionTest rightHoop rimCentre_state \<and>
   ballVelocity (hoopCollisionOf rightHoop rimCentre_state) = Vector3 1 2 3 \<and>
   ballVelocity (checkHoopCollision rimCentre_state) = Vector3 1 2 3"
  using rim_centre_velocity_unchanged [of rightHoop rimBand_state]
        rim_centre_velocity_unchanged [of rightHoop rimCentre_state]
  by (simp add: rightRim_world rimCollisionTest_right)
     (simp add: rimBand_state_def rimCentre_state_def initialGameState_def sqrt_fifth)

subsection \<open>The physics step: scoring once per attempt, court bounds, bounce speeds\<close>

lemma updateBallPhysics_shooting:
  "isShooting s \<Longrightarrow> updateBallPhysics dt s = checkHoopCollision (beforeHoopCheck dt s)"
  by (simp add: updateBallPhysics_def beforeHoopCheck_def Let_def)

lemma integrateBall_fields [simp]:
  "score (integrateBall dt s) = score s"
  "shotsMade (integrateBall dt s) = shotsMade s"
  "shotAttempts (integrateBall dt s) = shotAttempts s"
  "lastShotResult (integrateBall dt s) = lastShotResult s"
  "shotFeedbackTimer (integrateBall dt s) = shotFeedbackTimer s"
  "isShooting (integrateBall dt s) = isShooting s"
  by (simp_all add: integrateBall_def Let_def)

lemma groundCollision_fields [simp]:
  "score (groundCollision s) = score s"
  "shotsMade (groundCollision s) = shotsMade s"
  "shotAttempts (groundCollision s) = shotAttempts s"
  "lastShotResult (groundCollision s) = lastShotResult s"
  "shotFeedbackTimer (groundCollision s) = shotFeedbackTimer s"
  "vec_x (ballPosition (groundCollision s)) = vec_x (ballPosition s)"
  "vec_z (ballPosition (groundCollision s)) = vec_z (ballPosition s)"
  by (simp_all add: groundCollision_def Let_def set_y_def)

lemma boundaryCollisionX_fields [simp]:
  "score (boundaryCollisionX s) = score s"
  "shotsMade (boundaryCollisionX s) = shotsMade s"
  "shotAttempts (boundaryCollisionX s) = shotAttempts s"
  "lastShotResult (boundaryCollisionX s) = lastShotResult s"
  "shotFeedbackTimer (boundaryCollisionX s) = shotFeedbackTimer s"
  "isShooting (boundaryCollisionX s) = isShooting s"
  "vec_z (ballPosition (boundaryCollisionX s)) = vec_z (ballPosition s)"
  by (simp_all add: boundaryCollisionX_def Let_def set_x_def)

lemma boundaryCollisionZ_fields [simp]:
  "score (boundaryCollisionZ s) = score s"
  "shotsMade (boundaryCollisionZ s) = shotsMade s"
  "shotAttempts (boundaryCollisionZ s) = shotAttempts s"
  "lastShotResult (boundaryCollisionZ s) = lastShotResult s"
  "shotFeedbackTimer (boundaryCollisionZ s) = shotFeedbackTimer s"
  "isShooting (boundaryCollisionZ s) = isShooting s"
  "vec_x (ballPosition (boundaryCollisionZ s)) = vec_x (ballPosition s)"
  by (simp_all add: boundaryCollisionZ_def Let_def set_z_def)

lemma rotateBall_fields [simp]:
  "score (rotateBall dt s) = score s"
  "shotsMade (rotateBall dt s) = shotsMade s"
  "shotAttempts (rotateBall dt s) = shotAttempts s"
  "lastShotResult (rotateBall dt s) = lastShotResult s"
  "shotFeedbackTimer (rotateBall dt s) = shotFeedbackTimer s"
  "isShooting (rotateBall dt s) = isShooting s"
  "ballPosition (rotateBall dt s) = ballPosition s"
  "ballVelocity (rotateBall dt s) = ballVelocity s"
  by (simp_all add: rotateBall_def Let_def)

lemma backboardCollisionOf_fields [simp]:
  "score (backboardCollisionOf hoop s) = score s"
  "shotsMade (backboardCollisionOf hoop s) = shotsMade s"
  "shotAttempts (backboardCollisionOf hoop s) = shotAttempts s"
  "lastShotResult (backboardCollisionOf hoop s) = lastShotResult s"
  "shotFeedbackTimer (backboardCollisionOf hoop s) = shotFeedbackTimer s"
  "isShooting (backboardCollisionOf hoop s) = isShooting s"
  "vec_z (ballPosition (backboardCollisionOf hoop s)) = vec_z (ballPosition s)"
  by (simp_all add: backboardCollisionOf_def Let_def set_x_def)

lemma beforeHoopCheck_fields [simp]:
  "score (beforeHoopCheck dt s) = score s"
  "shotsMade (beforeHoopCheck dt s) = shotsMade s"
  "shotAttempts (beforeHoopCheck dt s) = shotAttempts s"
  "lastShotResult (beforeHoopCheck dt s) = lastShotResult s"
  "shotFeedbackTimer (beforeHoopCheck dt s) = shotFeedbackTimer s"
  by (simp_all add: beforeHoopCheck_def checkBackboardCollision_def)

lemma checkHoopCollision_fields [simp]:
  "isShooting (checkHoopCollision s) = isShooting s"
  "shotAttempts (checkHoopCollision s) = shotAttempts s"
  "shotFeedbackTimer (checkHoopCollision s) = shotFeedbackTimer s"
  by (simp_all add: checkHoopCollision_def)

lemma checkHoopCollision_already_made:
  assumes "lastShotResult s = ''made''"
  shows "shotsMade (checkHoopCollision s) = shotsMade s"
    and "score (checkHoopCollision s) = score s"
    and "lastShotResult (checkHoopCollision s) = ''made''"
  using assms by (simp_all add: checkHoopCollision_def hoopCollisionOf_scoring)

lemma checkHoopCollision_once:
  "shotsMade (checkHoopCollision s) = shotsMade s \<and>
     lastShotResult (checkHoopCollision s) = lastShotResult s \<or>
   lastShotResult s \<noteq> ''made'' \<and> shotsMade (checkHoopCollision s) = shotsMade s + 1 \<and>
     lastShotResult (checkHoopCollision s) = ''made''"
  by (simp add: checkHoopCollision_def hoopCollisionOf_scoring)

lemma shotFeedbackTimeout_fields [simp]:
  "score (shotFeedbackTimeout dt s) = score s"
  "shotsMade (shotFeedbackTimeout dt s) = shotsMade s"
  "shotAttempts (shotFeedbackTimeout dt s) = shotAttempts s"
  "isShooting (shotFeedbackTimeout dt s) = isShooting s"
  "ballPosition (shotFeedbackTimeout dt s) = ballPosition s"
  "ballVelocity (shotFeedbackTimeout dt s) = ballVelocity s"
  by (simp_all add: shotFeedbackTimeout_def Let_def)

lemma shotFeedbackTimeout_result:
  "lastShotResult (shotFeedbackTimeout dt s) = lastShotResult s \<or>
   lastShotResult s = '''' \<and> lastShotResult (shotFeedbackTimeout dt s) = ''missed''"
  by (simp add: shotFeedbackTimeout_def Let_def)

lemma animate_shooting:
  "isShooting s \<Longrightarrow>
   animate dt s = shotFeedbackTimeout dt (checkHoopCollision (beforeHoopCheck dt s))"
  by (simp add: animate_def handleInput_def updateBallPhysics_shooting)

lemma animate_shotAttempts [simp]: "shotAttempts (animate dt s) = shotAttempts s"
proof (cases "isShooting s")
  case True
  then show ?thesis by (simp add: animate_shooting)
next
  case False
  then show ?thesis
    by (simp add: animate_def updateBallPhysics_grounded)
qed

lemma animate_shotsMade_grounded:
  "\<not> isShooting s \<Longrightarrow> shotsMade (animate dt s) = shotsMade s"
  by (simp add: animate_def updateBallPhysics_grounded)

lemma attemptInvariant_animate:
  assumes "attemptInvariant n s"
  shows "attemptInvariant n (animate dt s)"
proof (cases "isShooting s")
  case False
  with assms show ?thesis
    by (auto simp: attemptInvariant_def animate_grounded animate_shotsMade_grounded)
next
  case sh: True
  define h where "h = checkHoopCollision (beforeHoopCheck dt s)"
  have a: "animate dt s = shotFeedbackTimeout dt h"
    using sh by (simp add: animate_shooting h_def)
  have "attemptInvariant n h"
  proof (cases "lastShotResult s = ''made''")
    case True
    with assms sh checkHoopCollision_already_made [of "beforeHoopCheck dt s"] show ?thesis
      by (auto simp: attemptInvariant_def h_def)
  next
    case False
    with assms sh checkHoopCollision_once [of "beforeHoopCheck dt s"] show ?thesis
      by (auto simp: attemptInvariant_def h_def)
  qed
  with shotFeedbackTimeout_result [of dt h] show ?thesis
    unfolding a by (auto simp: attemptInvariant_def)
qed

lemma resetBall_fields [simp]:
  "score (resetBall s) = score s"
  "shotsMade (resetBall s) = shotsMade s"
  "shotAttempts (resetBall s) = shotAttempts s"
  "isShooting (resetBall s) = False"
  "lastShotResult (resetBall s) = ''''"
  by (simp_all add: resetBall_def)

lemma shootBall_attempts:
  "shotAttempts (shootBall distTo s) = (if isShooting s then shotAttempts s else shotAttempts s + 1)"
  by (simp add: shootBall_def Let_def)

lemma step_attempts_mono: "shotAttempts s \<le> shotAttempts (step distTo s e)"
  by (cases e) (simp_all add: onKeyDown_def Let_def shootBall_attempts)

lemma run_attempts_mono: "shotAttempts s \<le> shotAttempts (run distTo s es)"
proof (induction es arbitrary: s)
  case Nil
  show ?case by simp
next
  case (Cons e es)
  have "shotAttempts s \<le> shotAttempts (step distTo s e)"
    by (rule step_attempts_mono)
  also have "\<dots> \<le> shotAttempts (run distTo (step distTo s e) es)"
    by (rule Cons.IH)
  finally show ?case by simp
qed

lemma attemptInvariant_step:
  assumes "attemptInvariant n s" and "shotAttempts (step distTo s e) = shotAttempts s"
  shows "attemptInvariant n (step distTo s e)"
proof (cases e)
  case (Frame dt)
  with assms show ?thesis by (simp add: attemptInvariant_animate)
next
  case (KeyUp key)
  with assms show ?thesis by (simp add: attemptInvariant_def)
next
  case (KeyDown key)
  show ?thesis
  proof (cases "key = ''Space''")
    case True
    with assms KeyDown have "isShooting s"
      by (simp add: onKeyDown_def Let_def shootBall_attempts split: if_splits)
    with assms KeyDown True show ?thesis
      by (simp add: onKeyDown_def Let_def shootBall_def attemptInvariant_def)
  next
    case False
    with assms KeyDown show ?thesis
      by (auto simp: onKeyDown_def Let_def attemptInvariant_def)
  qed
qed

lemma attemptInvariant_run:
  "attemptInvariant n s \<Longrightarrow> shotAttempts (run distTo s es) = shotAttempts s \<Longrightarrow>
   attemptInvariant n (run distTo s es)"
proof (induction es arbitrary: s)
  case Nil
  then show ?case by simp
next
  case (Cons e es)
  have "shotAttempts s \<le> shotAttempts (step distTo s e)"
    by (rule step_attempts_mono)
  moreover have "shotAttempts (step distTo s e) \<le> shotAttempts (run distTo (step distTo s e) es)"
    by (rule run_attempts_mono)
  ultimately have same: "shotAttempts (step distTo s e) = shotAttempts s"
    using Cons.prems(2) by simp
  with Cons.prems have "attemptInvariant n (step distTo s e)"
    by (intro attemptInvariant_step)
  moreover have "shotAttempts (run distTo (step distTo s e) es) = shotAttempts (step distTo s e)"
    using Cons.prems(2) same by simp
  ultimately show ?case
    using Cons.IH by simp
qed

lemma madeBasketTest_spec:
  "madeBasketTest hoop s =
     (isWithinRimPlane (ballPosition s) (localToWorld hoop (rimPosition hoop)) RIM_RADIUS BALL_RADIUS \<and>
      vec_y (ballVelocity s) < 0)"
  by (simp add: madeBasketTest_def isWithinRimPlane_def Let_def sub_def power2_eq_square)

lemma scoresAt_hoop:
  "scoresAt (localToWorld hoop (rimPosition hoop)) s =
     (madeBasketTest hoop s \<and> lastShotResult s \<noteq> ''made'')"
  by (simp add: scoresAt_def madeBasketTest_spec)

lemma checkHoopCollision_not_made:
  assumes "\<not> madeBasketTest rightHoop s" and "\<not> madeBasketTest leftHoop s"
  shows "shotsMade (checkHoopCollision s) = shotsMade s"
    and "score (checkHoopCollision s) = score s"
    and "lastShotResult (checkHoopCollision s) = lastShotResult s"
proof -
  have "\<not> madeBasketTest leftHoop (hoopCollisionOf rightHoop s)"
    using assms by (simp add: hoopCollisionOf_def rimBounce_not_made)
  then show "shotsMade (checkHoopCollision s) = shotsMade s"
    and "score (checkHoopCollision s) = score s"
    and "lastShotResult (checkHoopCollision s) = lastShotResult s"
    using assms(1) by (simp_all add: checkHoopCollision_def hoopCollisionOf_scoring)
qed

lemma checkHoopCollision_scores:
  shows "(shotsMade (checkHoopCollision s) = shotsMade s + 1) =
     (scoresAt rightRimCentre s \<or> scoresAt leftRimCentre s)"
  and "shotsMade (checkHoopCollision s) = shotsMade s + 1 \<and>
       score (checkHoopCollision s) = score s + (if isThreePointer s then 3 else 2) \<and>
       lastShotResult (checkHoopCollision s) = ''made'' \<or>
       shotsMade (checkHoopCollision s) = shotsMade s \<and> score (checkHoopCollision s) = score s"
proof -
  have r: "scoresAt rightRimCentre s = (madeBasketTest rightHoop s \<and> lastShotResult s \<noteq> ''made'')"
    using scoresAt_hoop [of rightHoop s] by (simp add: rightRim_world rightRimCentre_def)
  have l: "scoresAt leftRimCentre s = (madeBasketTest leftHoop s \<and> lastShotResult s \<noteq> ''made'')"
    using scoresAt_hoop [of leftHoop s] by (simp add: leftRim_world)
  show "(shotsMade (checkHoopCollision s) = shotsMade s + 1) =
     (scoresAt rightRimCentre s \<or> scoresAt leftRimCentre s)"
  proof (cases "madeBasketTest rightHoop s \<or> madeBasketTest leftHoop s")
    case True
    from checkHoopCollision_made(2) [OF this] True show ?thesis
      unfolding r l by auto
  next
    case False
    with checkHoopCollision_not_made(1) [of s] show ?thesis
      unfolding r l by simp
  qed
  show "shotsMade (checkHoopCollision s) = shotsMade s + 1 \<and>
       score (checkHoopCollision s) = score s + (if isThreePointer s then 3 else 2) \<and>
       lastShotResult (checkHoopCollision s) = ''made'' \<or>
       shotsMade (checkHoopCollision s) = shotsMade s \<and> score (checkHoopCollision s) = score s"
  proof (cases "madeBasketTest rightHoop s \<or> madeBasketTest leftHoop s")
    case True
    from checkHoopCollision_made [OF this] show ?thesis
      by (cases "lastShotResult s = ''made''") simp_all
  next
    case False
    with checkHoopCollision_not_made [of s] show ?thesis
      by simp
  qed
qed

lemma stages_isThreePointer [simp]:
  "isThreePointer (integrateBall dt s) = isThreePointer s"
  "isThreePointer (groundCollision s) = isThreePointer s"
  "isThreePointer (boundaryCollisionX s) = isThreePointer s"
  "isThreePointer (boundaryCollisionZ s) = isThreePointer s"
  "isThreePointer (rotateBall dt s) = isThreePointer s"
  "isThreePointer (backboardCollisionOf hoop s) = isThreePointer s"
  by (simp_all add: integrateBall_def groundCollision_def boundaryCollisionX_def
        boundaryCollisionZ_def rotateBall_def backboardCollisionOf_def Let_def)

lemma beforeHoopCheck_isThreePointer [simp]:
  "isThreePointer (beforeHoopCheck dt s) = isThreePointer s"
  by (simp add: beforeHoopCheck_def checkBackboardCollision_def)

lemma animate_scores:
  assumes "isShooting s"
  shows "(shotsMade (animate dt s) = shotsMade s + 1) =
           (scoresAt rightRimCentre (beforeHoopCheck dt s) \<or>
            scoresAt leftRimCentre (beforeHoopCheck dt s))"
    and "shotsMade (animate dt s) = shotsMade s + 1 \<and>
         score (animate dt s) = score s + (if isThreePointer s then 3 else 2) \<and>
         lastShotResult (animate dt s) = ''made'' \<or>
         shotsMade (animate dt s) = shotsMade s \<and> score (animate dt s) = score s"
proof -
  define b where "b = beforeHoopCheck dt s"
  define h where "h = checkHoopCollision b"
  have a: "animate dt s = shotFeedbackTimeout dt h"
    using assms by (simp add: animate_shooting h_def b_def)
  have b: "shotsMade b = shotsMade s" "score b = score s" "isThreePointer b = isThreePointer s"
    by (simp_all add: b_def)
  show "(shotsMade (animate dt s) = shotsMade s + 1) =
           (scoresAt rightRimCentre (beforeHoopCheck dt s) \<or>
            scoresAt leftRimCentre (beforeHoopCheck dt s))"
    using checkHoopCollision_scores(1) [of b] by (simp add: a h_def b b_def [symmetric])
  have "lastShotResult (shotFeedbackTimeout dt h) = ''made''" if "lastShotResult h = ''made''"
    using that shotFeedbackTimeout_result [of dt h] by auto
  with checkHoopCollision_scores(2) [of b]
  show "shotsMade (animate dt s) = shotsMade s + 1 \<and>
         score (animate dt s) = score s + (if isThreePointer s then 3 else 2) \<and>
         lastShotResult (animate dt s) = ''made'' \<or>
         shotsMade (animate dt s) = shotsMade s \<and> score (animate dt s) = score s"
    unfolding a h_def [symmetric] by (auto simp: b h_def)
qed

text \<open>
  C2. For one hoop, the step of checkHoopCollision counts a basket (one more made shot)
  exactly when the ball is within the rim plane of that hoop (horizontal distance to the rim
  centre below \<open>RIM_RADIUS - BALL_RADIUS * 0.5\<close>, vertical distance below \<open>BALL_RADIUS\<close>), its
  vertical velocity is negative and the result is not yet \<open>'made'\<close>. checkHoopCollision
  over both hoops counts a basket exactly when that holds for the right or for the left rim
  centre. A frame in flight is updateBallPhysics, which ends with checkHoopCollision, and
  then the feedback timer: it counts a basket exactly when the condition holds for the
  ball as integration, floor, walls and backboards of this frame have left it. A basket adds
  1 to the made shots and 2 or 3 to the score and sets the result to \<open>'made'\<close>; without
  one the made shots and the score are as before, as they are after a frame on the ground.
  With a vertical velocity that is not negative nothing is counted. Within one attempt
  (while \<open>shotAttempts\<close> keeps its value), starting with a result other than \<open>'made'\<close>, the
  made shots grow by at most one.
\<close>

theorem score_exactly_when_made:
  "((shotsMade (hoopCollisionOf hoop s) = shotsMade s + 1) =
      scoresAt (localToWorld hoop (rimPosition hoop)) s) \<and>
   localToWorld rightHoop (rimPosition rightHoop) = rightRimCentre \<and>
   localToWorld leftHoop (rimPosition leftHoop) = leftRimCentre \<and>
   ((shotsMade (checkHoopCollision s) = shotsMade s + 1) =
      (scoresAt rightRimCentre s \<or> scoresAt leftRimCentre s)) \<and>
   (shotsMade (checkHoopCollision s) = shotsMade s + 1 \<and>
    score (checkHoopCollision s) = score s + (if isThreePointer s then 3 else 2) \<and>
    lastShotResult (checkHoopCollision s) = ''made'' \<or>
    shotsMade (checkHoopCollision s) = shotsMade s \<and> score (checkHoopCollision s) = score s) \<and>
   (isShooting s \<longrightarrow>
      updateBallPhysics deltaTime s = checkHoopCollision (beforeHoopCheck deltaTime s) \<and>
      ((shotsMade (animate deltaTime s) = shotsMade s + 1) =
         (scoresAt rightRimCentre (beforeHoopCheck deltaTime s) \<or>
          scoresAt leftRimCentre (beforeHoopCheck deltaTime s))) \<and>
      (shotsMade (animate deltaTime s) = shotsMade s + 1 \<and>
       score (animate deltaTime s) = score s + (if isThreePointer s then 3 else 2) \<and>
       lastShotResult (animate deltaTime s) = ''made'' \<or>
       shotsMade (animate deltaTime s) = shotsMade s \<and>
       score (animate deltaTime s) = score s)) \<and>
   (\<not> isShooting s \<longrightarrow>
      shotsMade (animate deltaTime s) = shotsMade s \<and> score (animate deltaTime s) = score s) \<and>
   (0 \<le> vec_y (ballVelocity s) \<longrightarrow>
      shotsMade (checkHoopCollision s) = shotsMade s \<and> score (checkHoopCollision s) = score s) \<and>
   (lastShotResult s \<noteq> ''made'' \<and> shotAttempts (run distTo s es) = shotAttempts s \<longrightarrow>
      shotsMade s \<le> shotsMade (run distTo s es) \<and> shotsMade (run distTo s es) \<le> shotsMade s + 1)"
proof -
  have one: "(shotsMade (hoopCollisionOf hoop s) = shotsMade s + 1) =
      scoresAt (localToWorld hoop (rimPosition hoop)) s"
    by (simp add: hoopCollisionOf_scoring scoresAt_hoop)
  have world: "localToWorld rightHoop (rimPosition rightHoop) = rightRimCentre"
    "localToWorld leftHoop (rimPosition leftHoop) = leftRimCentre"
    by (simp_all add: rightRim_world leftRim_world rightRimCentre_def)
  have flight: "updateBallPhysics deltaTime s = checkHoopCollision (beforeHoopCheck deltaTime s)"
    if "isShooting s"
    using that by (rule updateBallPhysics_shooting)
  have ground: "shotsMade (animate deltaTime s) = shotsMade s \<and>
      score (animate deltaTime s) = score s" if "\<not> isShooting s"
    using that by (simp add: animate_def updateBallPhysics_grounded)
  have attempt: "shotsMade s \<le> shotsMade (run distTo s es) \<and>
      shotsMade (run distTo s es) \<le> shotsMade s + 1"
    if "lastShotResult s \<noteq> ''made''" "shotAttempts (run distTo s es) = shotAttempts s"
  proof -
    from that(1) have "attemptInvariant (shotsMade s) s"
      by (simp add: attemptInvariant_def)
    from attemptInvariant_run [OF this that(2)] show ?thesis
      by (auto simp: attemptInvariant_def)
  qed
  show ?thesis
    using one world checkHoopCollision_scores [of s] flight animate_scores [of s deltaTime]
          ground ascending_no_score [of s] attempt
    by blast
qed

lemma boundaryCollisionX_bound:
  "\<bar>vec_x (ballPosition (boundaryCollisionX s))\<bar> \<le> COURT_LENGTH / 2 - BALL_RADIUS"
  by (auto simp: boundaryCollisionX_def Let_def set_x_def const_defs)

lemma boundaryCollisionZ_bound:
  "\<bar>vec_z (ballPosition (boundaryCollisionZ s))\<bar> \<le> COURT_WIDTH / 2 - BALL_RADIUS"
  by (auto simp: boundaryCollisionZ_def Let_def set_z_def const_defs)

lemma walls_inCourt: "inCourt (ballPosition (boundaryCollisionZ (boundaryCollisionX s)))"
  using boundaryCollisionX_bound [of s] boundaryCollisionZ_bound [of "boundaryCollisionX s"]
  by (simp add: inCourt_def)

lemma backboardCollisionOf_x:
  assumes "hoop = rightHoop \<or> hoop = leftHoop"
  shows "vec_x (ballPosition (backboardCollisionOf hoop s)) = vec_x (ballPosition s) \<or>
         \<bar>vec_x (ballPosition (backboardCollisionOf hoop s))\<bar> \<le> 13.4613"
  using assms
  by (auto simp: backboardCollisionOf_def Let_def set_x_def rightBackboard_world
        leftBackboard_world hoops_distinct const_defs)

lemma backboardCollisionOf_inCourt:
  assumes "hoop = rightHoop \<or> hoop = leftHoop" and "inCourt (ballPosition s)"
  shows "inCourt (ballPosition (backboardCollisionOf hoop s))"
  using backboardCollisionOf_x [OF assms(1), of s] assms(2)
  by (auto simp: inCourt_def const_defs)

lemma checkBackboardCollision_inCourt:
  "inCourt (ballPosition s) \<Longrightarrow> inCourt (ballPosition (checkBackboardCollision s))"
  by (simp add: checkBackboardCollision_def backboardCollisionOf_inCourt)

lemma unit_component:
  assumes "0 < sqrt (a * a + b * b)"
  shows "\<bar>a / sqrt (a * a + b * b)\<bar> \<le> 1"
  using abs_le_hd1 [of a b] assms by simp

lemma rimBounce_position:
  assumes "rimCollisionTest hoop s"
  shows "\<bar>vec_x (ballPosition (rimBounce hoop s)) - vec_x (localToWorld hoop (rimPosition hoop))\<bar>
           \<le> RIM_RADIUS + BALL_RADIUS + 0.01"
    and "\<bar>vec_z (ballPosition (rimBounce hoop s)) - vec_z (localToWorld hoop (rimPosition hoop))\<bar>
           \<le> RIM_RADIUS + BALL_RADIUS + 0.01"
proof -
  define bx where "bx = vec_x (ballPosition s) - vec_x (localToWorld hoop (rimPosition hoop))"
  define bz where "bz = vec_z (ballPosition s) - vec_z (localToWorld hoop (rimPosition hoop))"
  define hd where "hd = sqrt (bx * bx + bz * bz)"
  define k where "k = RIM_RADIUS + BALL_RADIUS - hd + 0.01"
  from assms have band: "RIM_RADIUS - BALL_RADIUS < hd" "hd < RIM_RADIUS + 0.025"
    by (simp_all add: rimCollisionTest_def Let_def sub_def hd_def bx_def bz_def)
  then have hd_pos: "0 < hd" and k_pos: "0 \<le> k"
    by (simp_all add: k_def const_defs)
  have nx: "\<bar>bx / hd\<bar> \<le> 1"
    using hd_pos unit_component [of bx bz] by (simp add: hd_def)
  have nz: "\<bar>bz / hd\<bar> \<le> 1"
    using hd_pos unit_component [of bz bx] by (simp add: hd_def add.commute)
  have len: "length_v (Vector3 bx 0 bz) = hd"
    by (simp add: length_v_def hd_def)
  have px: "vec_x (ballPosition (rimBounce hoop s)) - vec_x (localToWorld hoop (rimPosition hoop))
              = bx + bx / hd * k"
    using hd_pos
    by (simp add: rimBounce_def Let_def sub_def add_def multiplyScalar_def normalize_def
          bx_def [symmetric] bz_def [symmetric] len hd_def [symmetric] k_def)
  have pz: "vec_z (ballPosition (rimBounce hoop s)) - vec_z (localToWorld hoop (rimPosition hoop))
              = bz + bz / hd * k"
    using hd_pos
    by (simp add: rimBounce_def Let_def sub_def add_def multiplyScalar_def normalize_def
          bx_def [symmetric] bz_def [symmetric] len hd_def [symmetric] k_def)
  have "\<bar>bx\<bar> \<le> hd"
    using abs_le_hd1 [of bx bz] by (simp add: hd_def)
  moreover have "\<bar>bx / hd * k\<bar> \<le> k"
  proof -
    have "\<bar>bx / hd * k\<bar> = \<bar>bx / hd\<bar> * k"
      using k_pos by (simp only: abs_mult abs_of_nonneg)
    also have "\<dots> \<le> 1 * k"
      by (rule mult_right_mono [OF nx k_pos])
    finally show ?thesis by simp
  qed
  ultimately have "\<bar>bx + bx / hd * k\<bar> \<le> hd + k"
    by linarith
  then show "\<bar>vec_x (ballPosition (rimBounce hoop s)) - vec_x (localToWorld hoop (rimPosition hoop))\<bar>
           \<le> RIM_RADIUS + BALL_RADIUS + 0.01"
    unfolding px by (simp add: k_def)
  have "\<bar>bz\<bar> \<le> hd"
    using abs_le_hd2 [of bz bx] by (simp add: hd_def)
  moreover have "\<bar>bz / hd * k\<bar> \<le> k"
  proof -
    have "\<bar>bz / hd * k\<bar> = \<bar>bz / hd\<bar> * k"
      using k_pos by (simp only: abs_mult abs_of_nonneg)
    also have "\<dots> \<le> 1 * k"
      by (rule mult_right_mono [OF nz k_pos])
    finally show ?thesis by simp
  qed
  ultimately have "\<bar>bz + bz / hd * k\<bar> \<le> hd + k"
    by linarith
  then show "\<bar>vec_z (ballPosition (rimBounce hoop s)) - vec_z (localToWorld hoop (rimPosition hoop))\<bar>
           \<le> RIM_RADIUS + BALL_RADIUS + 0.01"
    unfolding pz by (simp add: k_def)
qed

lemma rimBounce_inCourt:
  assumes "hoop = rightHoop \<or> hoop = leftHoop" and "rimCollisionTest hoop s"
  shows "inCourt (ballPosition (rimBounce hoop s))"
proof -
  define px where "px = vec_x (ballPosition (rimBounce hoop s))"
  define pz where "pz = vec_z (ballPosition (rimBounce hoop s))"
  define cx where "cx = vec_x (localToWorld hoop (rimPosition hoop))"
  define cz where "cz = vec_z (localToWorld hoop (rimPosition hoop))"
  have c: "\<bar>cx\<bar> = 2577 / 200" "\<bar>cz\<bar> \<le> 1"
    using assms(1) leftRimCentre_z by (auto simp: cx_def cz_def rightRim_world leftRim_world)
  have r: "RIM_RADIUS + BALL_RADIUS + 0.01 = 3563 / 10000"
    by (simp add: const_defs)
  have "\<bar>px - cx\<bar> \<le> 3563 / 10000" "\<bar>pz - cz\<bar> \<le> 3563 / 10000"
    using rimBounce_position [OF assms(2)] unfolding r px_def pz_def cx_def cz_def by simp_all
  with c have "\<bar>px\<bar> \<le> 138787 / 10000 \<and> \<bar>pz\<bar> \<le> 73787 / 10000"
    by linarith
  then show ?thesis
    by (simp add: inCourt_def px_def pz_def const_defs)
qed

lemma hoopCollisionOf_inCourt:
  assumes "hoop = rightHoop \<or> hoop = leftHoop" and "inCourt (ballPosition s)"
  shows "inCourt (ballPosition (hoopCollisionOf hoop s))"
  using assms by (simp add: hoopCollisionOf_def rimBounce_inCourt)

lemma checkHoopCollision_inCourt:
  "inCourt (ballPosition s) \<Longrightarrow> inCourt (ballPosition (checkHoopCollision s))"
  by (simp add: checkHoopCollision_def hoopCollisionOf_inCourt)

lemma beforeHoopCheck_inCourt: "inCourt (ballPosition (beforeHoopCheck dt s))"
  unfolding beforeHoopCheck_def
  by (intro checkBackboardCollision_inCourt) (simp add: walls_inCourt)

lemma animate_shooting_inCourt:
  "isShooting s \<Longrightarrow> inCourt (ballPosition (animate dt s))"
  by (simp add: animate_shooting checkHoopCollision_inCourt beforeHoopCheck_inCourt)

lemma keepWithinCourt_inCourt: "inCourt (keepWithinCourt p)"
  by (auto simp: keepWithinCourt_def inCourt_def Let_def const_defs)

lemma handleMovement_inCourt:
  "inCourt (ballPosition s) \<Longrightarrow> inCourt (ballPosition (handleMovement dt s))"
  by (simp add: handleMovement_def Let_def keepWithinCourt_inCourt)

lemma handleInput_inCourt:
  "inCourt (ballPosition s) \<Longrightarrow> inCourt (ballPosition (handleInput dt s))"
  by (simp add: handleInput_def handleMovement_inCourt)

lemma animate_inCourt:
  assumes "inCourt (ballPosition s)"
  shows "inCourt (ballPosition (animate dt s))"
proof (cases "isShooting s")
  case True
  then show ?thesis by (rule animate_shooting_inCourt)
next
  case False
  then have "ballPosition (animate dt s) = ballPosition (handleInput dt s)"
    by (simp add: animate_def updateBallPhysics_grounded)
  with assms show ?thesis
    by (simp add: handleInput_inCourt)
qed

lemma step_inCourt:
  assumes "inCourt (ballPosition s)"
  shows "inCourt (ballPosition (step distTo s e))"
proof (cases e)
  case (Frame dt)
  with assms show ?thesis by (simp add: animate_inCourt)
next
  case (KeyDown key)
  with assms show ?thesis
    by (simp add: onKeyDown_def Let_def resetBall_def shootBall_def inCourt_def const_defs)
next
  case (KeyUp key)
  with assms show ?thesis by simp
qed

lemma run_inCourt:
  "inCourt (ballPosition s) \<Longrightarrow> inCourt (ballPosition (run distTo s es))"
  by (induction es arbitrary: s) (simp_all add: step_inCourt)

text \<open>
  C7. After a frame the ball is inside the court bounds, \<open>\<bar>x\<bar> \<le> COURT_LENGTH / 2 - BALL_RADIUS\<close>
  and \<open>\<bar>z\<bar> \<le> COURT_WIDTH / 2 - BALL_RADIUS\<close>: always when the frame starts in flight, and
  whenever it was inside before the frame; so it is inside after every session that starts
  from the initial state.
\<close>

theorem ball_stays_in_court:
  "(isShooting s \<longrightarrow> inCourt (ballPosition (animate deltaTime s))) \<and>
   (inCourt (ballPosition s) \<longrightarrow> inCourt (ballPosition (animate deltaTime s))) \<and>
   inCourt (ballPosition (run distTo initialGameState es))"
proof -
  have "inCourt (ballPosition initialGameState)"
    by (simp add: initialGameState_def inCourt_def const_defs)
  then have "inCourt (ballPosition (run distTo initialGameState es))"
    by (rule run_inCourt)
  then show ?thesis
    by (simp add: animate_shooting_inCourt animate_inCourt)
qed

lemma scaled_square_le:
  fixes a k :: real
  assumes "\<bar>k\<bar> \<le> 1"
  shows "(a * k) * (a * k) \<le> a * a"
proof -
  have "k * k \<le> 1"
    using assms abs_square_le_1 [of k] by (simp add: power2_eq_square)
  then have "(a * a) * (k * k) \<le> (a * a) * 1"
    by (intro mult_left_mono) simp_all
  then show ?thesis
    by (simp add: mult_ac)
qed

lemma length_v_mono:
  assumes "x' * x' \<le> x * x" and "y' * y' \<le> y * y" and "z' * z' \<le> z * z"
  shows "length_v (Vector3 x' y' z') \<le> length_v (Vector3 x y z)"
  unfolding length_v_def using assms by (intro real_sqrt_le_mono) simp

lemma length_v_zero: "length_v (Vector3 0 0 0) \<le> length_v v"
  by (simp add: length_v_def)

lemma groundCollision_slower:
  "length_v (ballVelocity (groundCollision s)) \<le> length_v (ballVelocity s)"
proof -
  obtain x y z where v: "ballVelocity s = Vector3 x y z"
    by (cases "ballVelocity s")
  have "length_v (Vector3 (x * BOUNCE_DAMPING) (- y * BOUNCE_DAMPING) (z * BOUNCE_DAMPING))
          \<le> length_v (Vector3 x y z)"
    using scaled_square_le [of BOUNCE_DAMPING x] scaled_square_le [of BOUNCE_DAMPING y]
          scaled_square_le [of BOUNCE_DAMPING z]
    by (intro length_v_mono) (simp_all add: BOUNCE_DAMPING_def)
  then show ?thesis
    using length_v_zero [of "Vector3 x y z"]
    by (simp add: groundCollision_def Let_def v)
qed

lemma boundaryCollisionX_slower:
  "length_v (ballVelocity (boundaryCollisionX s)) \<le> length_v (ballVelocity s)"
proof -
  obtain x y z where v: "ballVelocity s = Vector3 x y z"
    by (cases "ballVelocity s")
  have "length_v (Vector3 (- x * BOUNCE_DAMPING) y z) \<le> length_v (Vector3 x y z)"
    using scaled_square_le [of BOUNCE_DAMPING x]
    by (intro length_v_mono) (simp_all add: BOUNCE_DAMPING_def)
  then show ?thesis
    by (simp add: boundaryCollisionX_def Let_def set_x_def v)
qed

lemma boundaryCollisionZ_slower:
  "length_v (ballVelocity (boundaryCollisionZ s)) \<le> length_v (ballVelocity s)"
proof -
  obtain x y z where v: "ballVelocity s = Vector3 x y z"
    by (cases "ballVelocity s")
  have "length_v (Vector3 x y (- z * BOUNCE_DAMPING)) \<le> length_v (Vector3 x y z)"
    using scaled_square_le [of BOUNCE_DAMPING z]
    by (intro length_v_mono) (simp_all add: BOUNCE_DAMPING_def)
  then show ?thesis
    by (simp add: boundaryCollisionZ_def Let_def set_z_def v)
qed

lemma backboardCollisionOf_slower:
  "length_v (ballVelocity (backboardCollisionOf hoop s)) \<le> length_v (ballVelocity s)"
proof -
  obtain x y z where v: "ballVelocity s = Vector3 x y z"
    by (cases "ballVelocity s")
  have "length_v (Vector3 (- x * BOUNCE_DAMPING * BACKBOARD_DAMP_FACTOR)
                          (y * (BOUNCE_DAMPING * 0.9 * BACKBOARD_DAMP_FACTOR))
                          (z * (BOUNCE_DAMPING * 0.95 * BACKBOARD_DAMP_FACTOR)))
          \<le> length_v (Vector3 x y z)"
    using scaled_square_le [of "BOUNCE_DAMPING * BACKBOARD_DAMP_FACTOR" x]
          scaled_square_le [of "BOUNCE_DAMPING * 0.9 * BACKBOARD_DAMP_FACTOR" y]
          scaled_square_le [of "BOUNCE_DAMPING * 0.95 * BACKBOARD_DAMP_FACTOR" z]
    by (intro length_v_mono) (simp_all add: BOUNCE_DAMPING_def BACKBOARD_DAMP_FACTOR_def)
  then show ?thesis
    by (simp add: backboardCollisionOf_def Let_def v)
qed

lemma reflect_unit_horizontal:
  fixes a c x z :: real
  assumes "a * a + c * c = 1"
  shows "(x - a * (2 * (x * a + z * c))) * (x - a * (2 * (x * a + z * c))) +
         (z - c * (2 * (x * a + z * c))) * (z - c * (2 * (x * a + z * c))) = x * x + z * z"
proof -
  define d where "d = x * a + z * c"
  have "(x - a * (2 * d)) * (x - a * (2 * d)) + (z - c * (2 * d)) * (z - c * (2 * d))
          = x * x + z * z - 4 * d * (x * a + z * c) + 4 * (d * d) * (a * a + c * c)"
    by (simp add: algebra_simps)
  also have "\<dots> = x * x + z * z"
    by (simp add: assms d_def)
  finally show ?thesis
    by (simp add: d_def)
qed

lemma unit_normal:
  fixes bx bz :: real
  assumes "0 < sqrt (bx * bx + bz * bz)"
  shows "(bx / sqrt (bx * bx + bz * bz)) * (bx / sqrt (bx * bx + bz * bz)) +
         (bz / sqrt (bx * bx + bz * bz)) * (bz / sqrt (bx * bx + bz * bz)) = 1"
proof -
  define hd where "hd = sqrt (bx * bx + bz * bz)"
  have sq: "hd * hd = bx * bx + bz * bz"
    by (simp add: hd_def)
  have "hd \<noteq> 0"
    using assms unfolding hd_def by linarith
  then have "(bx / hd) * (bx / hd) + (bz / hd) * (bz / hd) = (bx * bx + bz * bz) / (hd * hd)"
    by (simp add: add_divide_distrib)
  also have "\<dots> = 1"
    using \<open>hd \<noteq> 0\<close> by (simp add: sq [symmetric])
  finally show ?thesis
    by (simp add: hd_def)
qed

lemma rimBounce_velocity:
  assumes "rimCollisionTest hoop s"
  shows "horizontalSpeed (ballVelocity (rimBounce hoop s)) =
           BOUNCE_DAMPING * horizontalSpeed (ballVelocity s)"
    and "vec_y (ballVelocity (rimBounce hoop s)) =
           \<bar>vec_y (ballVelocity s)\<bar> * BOUNCE_DAMPING * BOUNCE_DAMPING * 0.5 + 0.5"
proof -
  obtain x y z where v: "ballVelocity s = Vector3 x y z"
    by (cases "ballVelocity s")
  define bx where "bx = vec_x (ballPosition s) - vec_x (localToWorld hoop (rimPosition hoop))"
  define bz where "bz = vec_z (ballPosition s) - vec_z (localToWorld hoop (rimPosition hoop))"
  define hd where "hd = sqrt (bx * bx + bz * bz)"
  define a where "a = bx / hd"
  define c where "c = bz / hd"
  have hd_pos: "0 < hd"
    using rimCollisionTest_nonzero [OF assms]
    by (simp add: length_v_def sub_def bx_def bz_def hd_def)
  have len: "length_v (Vector3 bx 0 bz) = hd"
    by (simp add: length_v_def hd_def)
  have n: "normalize (Vector3 bx 0 bz) = Vector3 a 0 c"
    using hd_pos by (simp add: normalize_def len a_def c_def)
  have unit: "a * a + c * c = 1"
    using unit_normal [of bx bz] hd_pos by (simp add: a_def c_def hd_def)
  have vel: "ballVelocity (rimBounce hoop s) =
      Vector3 ((x - a * (2 * (x * a + z * c))) * BOUNCE_DAMPING)
              (\<bar>y * BOUNCE_DAMPING * BOUNCE_DAMPING * 0.5\<bar> + 0.5)
              ((z - c * (2 * (x * a + z * c))) * BOUNCE_DAMPING)"
    by (simp add: rimBounce_def Let_def bx_def [symmetric] bz_def [symmetric] n v reflect_def
          sub_def multiplyScalar_def dot_def set_y_def)
  have "horizontalSpeed (ballVelocity (rimBounce hoop s)) =
          sqrt (((x - a * (2 * (x * a + z * c))) * (x - a * (2 * (x * a + z * c))) +
                 (z - c * (2 * (x * a + z * c))) * (z - c * (2 * (x * a + z * c)))) *
                (BOUNCE_DAMPING * BOUNCE_DAMPING))"
    by (simp add: vel horizontalSpeed_def algebra_simps)
  also have "\<dots> = sqrt ((x * x + z * z) * (BOUNCE_DAMPING * BOUNCE_DAMPING))"
    by (simp only: reflect_unit_horizontal [OF unit])
  also have "\<dots> = BOUNCE_DAMPING * sqrt (x * x + z * z)"
  proof -
    have "0 \<le> BOUNCE_DAMPING"
      by (simp add: BOUNCE_DAMPING_def)
    then have "sqrt (BOUNCE_DAMPING * BOUNCE_DAMPING) = BOUNCE_DAMPING"
      by (simp only: real_sqrt_abs2 abs_of_nonneg)
    then show ?thesis
      by (simp only: real_sqrt_mult mult.commute)
  qed
  finally show "horizontalSpeed (ballVelocity (rimBounce hoop s)) =
           BOUNCE_DAMPING * horizontalSpeed (ballVelocity s)"
    by (simp add: horizontalSpeed_def v)
  show "vec_y (ballVelocity (rimBounce hoop s)) =
           \<bar>vec_y (ballVelocity s)\<bar> * BOUNCE_DAMPING * BOUNCE_DAMPING * 0.5 + 0.5"
    by (simp add: vel v abs_mult BOUNCE_DAMPING_def)
qed

lemma horizontalSpeed_square:
  "horizontalSpeed v * horizontalSpeed v = vec_x v * vec_x v + vec_z v * vec_z v"
  by (simp add: horizontalSpeed_def)

lemma length_v_square:
  "length_v v * length_v v = vec_x v * vec_x v + vec_y v * vec_y v + vec_z v * vec_z v"
  by (simp add: length_v_def)

lemma abs_y_le_length: "\<bar>vec_y v\<bar> \<le> length_v v"
proof -
  have "sqrt (vec_y v * vec_y v) \<le> length_v v"
    unfolding length_v_def by (rule real_sqrt_le_mono) simp
  then show ?thesis by simp
qed

lemma rimBounce_speed_bound:
  assumes "rimCollisionTest hoop s"
  shows "length_v (ballVelocity (rimBounce hoop s)) \<le>
           BOUNCE_DAMPING * length_v (ballVelocity s) + 0.5"
proof -
  define v where "v = ballVelocity s"
  define v' where "v' = ballVelocity (rimBounce hoop s)"
  define L where "L = length_v v"
  define w where "w = \<bar>vec_y v\<bar>"
  define A where "A = vec_x v * vec_x v + vec_z v * vec_z v"
  define A' where "A' = vec_x v' * vec_x v' + vec_z v' * vec_z v'"
  define W where "W = w * w"
  define LL where "LL = L * L"
  have L0: "0 \<le> L"
    by (simp add: L_def length_v_def)
  have LL: "LL = A + W"
    by (simp add: LL_def W_def L_def length_v_square A_def w_def)
  have wL: "w \<le> L" and w0: "0 \<le> w"
    using abs_y_le_length [of v] by (simp_all add: w_def L_def)
  have e: "horizontalSpeed v' = 7 / 10 * horizontalSpeed v"
    using rimBounce_velocity(1) [OF assms] by (simp add: v_def v'_def BOUNCE_DAMPING_def)
  have "A' = horizontalSpeed v' * horizontalSpeed v'"
    by (simp only: horizontalSpeed_square A'_def)
  also have "\<dots> = 49 / 100 * (horizontalSpeed v * horizontalSpeed v)"
    unfolding e by (simp add: algebra_simps)
  also have "\<dots> = 49 / 100 * A"
    by (simp only: horizontalSpeed_square A_def)
  finally have A'A: "A' = 49 / 100 * A" .
  have y': "vec_y v' = 49 / 200 * w + 1 / 2"
    using rimBounce_velocity(2) [OF assms] by (simp add: v_def v'_def w_def BOUNCE_DAMPING_def)
  have y'y': "vec_y v' * vec_y v' = 2401 / 40000 * W + 49 / 200 * w + 1 / 4"
    unfolding y' W_def by (simp add: algebra_simps)
  have ww: "0 \<le> W" by (simp add: W_def)
  have "length_v v' * length_v v' = A' + vec_y v' * vec_y v'"
    by (simp add: length_v_square A'_def)
  also have "\<dots> = 49 / 100 * A + 2401 / 40000 * W + 49 / 200 * w + 1 / 4"
    by (simp add: A'A y'y')
  also have "\<dots> \<le> 49 / 100 * LL + 7 / 10 * L + 1 / 4"
    using wL w0 ww L0 unfolding LL by argo
  also have "\<dots> = (7 / 10 * L + 1 / 2) * (7 / 10 * L + 1 / 2)"
    by (simp add: algebra_simps LL_def)
  finally have "(length_v v')\<^sup>2 \<le> (7 / 10 * L + 1 / 2)\<^sup>2"
    by (simp add: power2_eq_square)
  moreover have "0 \<le> 7 / 10 * L + 1 / 2"
    using L0 by simp
  ultimately have "length_v v' \<le> 7 / 10 * L + 1 / 2"
    by (rule power2_le_imp_le)
  then show ?thesis
    by (simp add: v'_def L_def v_def BOUNCE_DAMPING_def)
qed

text \<open>
  C4, as the code has it. The bounces at the floor, at a wall and at a backboard do not
  increase the speed. A rim bounce multiplies the horizontal speed by \<open>BOUNCE_DAMPING\<close> but
  sets the vertical velocity to \<open>\<bar>v.y\<bar> * BOUNCE_DAMPING * BOUNCE_DAMPING * 0.5 + 0.5\<close>; the
  speed after it is at most \<open>BOUNCE_DAMPING\<close> times the speed before plus 0.5.
\<close>

theorem bounces_damp_except_rim_pop:
  "length_v (ballVelocity (groundCollision s)) \<le> length_v (ballVelocity s) \<and>
   length_v (ballVelocity (boundaryCollisionX s)) \<le> length_v (ballVelocity s) \<and>
   length_v (ballVelocity (boundaryCollisionZ s)) \<le> length_v (ballVelocity s) \<and>
   length_v (ballVelocity (backboardCollisionOf hoop s)) \<le> length_v (ballVelocity s) \<and>
   (rimCollisionTest hoop s \<longrightarrow>
      horizontalSpeed (ballVelocity (rimBounce hoop s)) =
        BOUNCE_DAMPING * horizontalSpeed (ballVelocity s) \<and>
      vec_y (ballVelocity (rimBounce hoop s)) =
        \<bar>vec_y (ballVelocity s)\<bar> * BOUNCE_DAMPING * BOUNCE_DAMPING * 0.5 + 0.5 \<and>
      length_v (ballVelocity (rimBounce hoop s)) \<le>
        BOUNCE_DAMPING * length_v (ballVelocity s) + 0.5)"
  using groundCollision_slower [of s] boundaryCollisionX_slower [of s]
        boundaryCollisionZ_slower [of s] backboardCollisionOf_slower [of hoop s]
        rimBounce_velocity [of hoop s] rimBounce_speed_bound [of hoop s]
  by blast

lemma rimBand_test: "rimCollisionTest rightHoop rimBand_state \<and> \<not> madeBasketTest rightHoop rimBand_state"
  by (simp add: rimCollisionTest_right madeBasketTest_right rimBand_state_def initialGameState_def
        sqrt_fifth)

lemma rimBand_bounce: "rimBounce rightHoop rimBand_state = rimBand_after"
  by (simp add: rimBounce_def rightRim_world rimBand_state_def rimBand_after_def
        initialGameState_def Let_def sub_def add_def multiplyScalar_def reflect_def dot_def
        normalize_def length_v_def set_y_def sqrt_fifth const_defs)

lemma rimBand_checkHoopCollision: "checkHoopCollision rimBand_state = rimBand_after"
proof -
  have "hoopCollisionOf rightHoop rimBand_state = rimBand_after"
    using rimBand_test by (simp add: hoopCollisionOf_def rimBand_bounce)
  moreover have "hoopCollisionOf leftHoop rimBand_after = rimBand_after"
  proof (rule hoopCollisionOf_idle)
    have "sqrt ((vec_x (ballPosition rimBand_after) - 12.885) *
                (vec_x (ballPosition rimBand_after) - 12.885) +
                vec_z (ballPosition rimBand_after) * vec_z (ballPosition rimBand_after)) < 1"
      by (simp add: rimBand_after_def)
    from right_close_left_idle [OF this]
    show "\<not> madeBasketTest leftHoop rimBand_after" "\<not> rimCollisionTest leftHoop rimBand_after"
      by simp_all
  qed
  ultimately show ?thesis
    by (simp add: checkHoopCollision_def)
qed

text \<open>
  C4 as stated fails at the rim: a ball in the rim band of the right hoop with speed 0.5
  leaves the bounce with a larger speed.
\<close>

theorem rim_pop_counterexample:
  "rimCollisionTest rightHoop rimBand_state \<and>
   \<not> length_v (ballVelocity (checkHoopCollision rimBand_state))
       \<le> length_v (ballVelocity rimBand_state)"
  using rimBand_test
  by (simp add: rimBand_checkHoopCollision)
     (simp add: rimBand_after_def rimBand_state_def initialGameState_def length_v_def)

theorem bounces_damp_except_rim_pop_witness:
  "rimCollisionTest rightHoop rimBand_state \<and>
   length_v (ballVelocity (groundCollision rimBand_state)) \<le> length_v (ballVelocity rimBand_state) \<and>
   horizontalSpeed (ballVelocity (rimBounce rightHoop rimBand_state)) =
     BOUNCE_DAMPING * horizontalSpeed (ballVelocity rimBand_state) \<and>
   vec_y (ballVelocity (rimBounce rightHoop rimBand_state)) = 0.598 \<and>
   length_v (ballVelocity (rimBounce rightHoop rimBand_state))
     \<le> BOUNCE_DAMPING * length_v (ballVelocity rimBand_state) + 0.5"
  using bounces_damp_except_rim_pop [of rimBand_state rightHoop] rimBand_test
  by (simp add: rimBand_state_def initialGameState_def BOUNCE_DAMPING_def)

theorem score_exactly_when_made_witness:
  "isShooting lateMake_frame1 \<and>
   lastShotResult lateMake_frame1 = ''missed'' \<and>
   shotsMade (animate 0.05 lateMake_frame1) = shotsMade lateMake_frame1 + 1 \<and>
   score (animate 0.05 lateMake_frame1) = score lateMake_frame1 + 2 \<and>
   lastShotResult (animate 0.05 lateMake_frame1) = ''made'' \<and>
   (scoresAt rightRimCentre (beforeHoopCheck 0.05 lateMake_frame1) \<or>
    scoresAt leftRimCentre (beforeHoopCheck 0.05 lateMake_frame1)) \<and>
   scoresAt rightRimCentre lateMake_atRim \<and>
   shotsMade (hoopCollisionOf rightHoop lateMake_atRim) = shotsMade lateMake_atRim + 1 \<and>
   shotsMade (checkHoopCollision lateMake_atRim) = shotsMade lateMake_atRim + 1 \<and>
   \<not> isShooting initialGameState \<and>
   shotsMade (animate 0.016 initialGameState) = shotsMade initialGameState \<and>
   0 \<le> vec_y (ballVelocity rimCentre_state) \<and>
   shotsMade (checkHoopCollision rimCentre_state) = shotsMade rimCentre_state \<and>
   lastShotResult lateMake_state \<noteq> ''made'' \<and>
   shotAttempts (run distanceTo lateMake_state [Frame 0.1, Frame 0.05]) =
     shotAttempts lateMake_state \<and>
   shotsMade (run distanceTo lateMake_state [Frame 0.1, Frame 0.05]) \<le>
     shotsMade lateMake_state + 1"
proof -
  have s1: "isShooting lateMake_frame1" "lastShotResult lateMake_frame1 = ''missed''"
    "\<not> isThreePointer lateMake_frame1"
    by (simp_all add: lateMake_defs)
  have a1: "shotsMade (animate 0.05 lateMake_frame1) = shotsMade lateMake_frame1 + 1"
    unfolding lateMake_second_frame by (simp add: lateMake_defs)
  from s1(1,3) a1
    score_exactly_when_made [where s = lateMake_frame1 and deltaTime = "0.05"
                                and hoop = rightHoop and es = "[]" and distTo = distanceTo]
  have f1: "score (animate 0.05 lateMake_frame1) = score lateMake_frame1 + 2"
    "lastShotResult (animate 0.05 lateMake_frame1) = ''made''"
    "scoresAt rightRimCentre (beforeHoopCheck 0.05 lateMake_frame1) \<or>
     scoresAt leftRimCentre (beforeHoopCheck 0.05 lateMake_frame1)"
    by auto
  have at: "scoresAt rightRimCentre lateMake_atRim"
    by (simp add: scoresAt_def isWithinRimPlane_def rightRimCentre_def lateMake_defs const_defs)
  from at
    score_exactly_when_made [where s = lateMake_atRim and deltaTime = "0.05"
                                and hoop = rightHoop and es = "[]" and distTo = distanceTo]
  have f2: "shotsMade (hoopCollisionOf rightHoop lateMake_atRim) = shotsMade lateMake_atRim + 1"
    "shotsMade (checkHoopCollision lateMake_atRim) = shotsMade lateMake_atRim + 1"
    by auto
  have s3: "\<not> isShooting initialGameState"
    by (simp add: initialGameState_def)
  from s3
    score_exactly_when_made [where s = initialGameState and deltaTime = "0.016"
                                and hoop = rightHoop and es = "[]" and distTo = distanceTo]
  have f3: "shotsMade (animate 0.016 initialGameState) = shotsMade initialGameState"
    by auto
  have s4: "0 \<le> vec_y (ballVelocity rimCentre_state)"
    by (simp add: rimCentre_state_def)
  from s4
    score_exactly_when_made [where s = rimCentre_state and deltaTime = "0.05"
                                and hoop = rightHoop and es = "[]" and distTo = distanceTo]
  have f4: "shotsMade (checkHoopCollision rimCentre_state) = shotsMade rimCentre_state"
    by auto
  have s5: "lastShotResult lateMake_state \<noteq> ''made''"
    "shotAttempts (run distanceTo lateMake_state [Frame 0.1, Frame 0.05]) =
       shotAttempts lateMake_state"
    by (simp_all add: lateMake_defs)
  from s5
    score_exactly_when_made [where s = lateMake_state and deltaTime = "0.05"
                                and hoop = rightHoop and es = "[Frame 0.1, Frame 0.05]"
                                and distTo = distanceTo]
  have f5: "shotsMade (run distanceTo lateMake_state [Frame 0.1, Frame 0.05]) \<le>
     shotsMade lateMake_state + 1"
    by auto
  from s1(1,2) a1 f1 at f2 s3 f3 s4 f4 s5 f5 show ?thesis
    by blast
qed

theorem ball_stays_in_court_witness:
  "isShooting lateMake_state \<and> inCourt (ballPosition lateMake_state) \<and>
   inCourt (ballPosition (animate 0.1 lateMake_state)) \<and>
   inCourt (ballPosition (run distanceTo initialGameState [KeyDown ''ArrowRight'', Frame 0.016, KeyDown ''Space'', Frame 0.016]))"
  using ball_stays_in_court [of lateMake_state "0.1" distanceTo
          "[KeyDown ''ArrowRight'', Frame 0.016, KeyDown ''Space'', Frame 0.016]"]
  by (simp add: lateMake_defs inCourt_def const_defs)

subsection \<open>The floor bounce of scenario C\<close>

lemma integrateBall_zero:
  "integrateBall 0 s = s"
  by (cases "ballVelocity s"; cases "ballPosition s")
     (simp add: integrateBall_def Let_def set_y_def multiplyScalar_def add_def)

lemma boundary_vertical [simp]:
  "vec_y (ballPosition (boundaryCollisionX s)) = vec_y (ballPosition s)"
  "vec_y (ballVelocity (boundaryCollisionX s)) = vec_y (ballVelocity s)"
  "vec_y (ballPosition (boundaryCollisionZ s)) = vec_y (ballPosition s)"
  "vec_y (ballVelocity (boundaryCollisionZ s)) = vec_y (ballVelocity s)"
  by (simp_all add: boundaryCollisionX_def boundaryCollisionZ_def Let_def set_x_def set_z_def)

lemma backboardCollisionOf_vertical [simp]:
  "vec_y (ballPosition (backboardCollisionOf hoop s)) = vec_y (ballPosition s)"
  by (simp add: backboardCollisionOf_def Let_def set_x_def)

lemma backboardCollisionOf_low:
  assumes "hoop = rightHoop \<or> hoop = leftHoop" and "vec_y (ballPosition s) < 2"
  shows "backboardCollisionOf hoop s = s"
  using assms
  by (auto simp: backboardCollisionOf_def Let_def sub_def rightBackboard_world
        leftBackboard_world const_defs)

lemma hoopCollisionOf_low:
  assumes "hoop = rightHoop \<or> hoop = leftHoop" and "vec_y (ballPosition s) < 2"
  shows "hoopCollisionOf hoop s = s"
proof (rule hoopCollisionOf_idle)
  show "\<not> madeBasketTest hoop s"
    using assms by (auto simp: madeBasketTest_right madeBasketTest_left)
  show "\<not> rimCollisionTest hoop s"
    using assms by (auto simp: rimCollisionTest_right rimCollisionTest_left)
qed

lemma low_pass_vertical:
  assumes "isShooting s" and "vec_y (ballPosition (groundCollision s)) < 2"
  shows "vec_y (ballPosition (updateBallPhysics 0 s)) = vec_y (ballPosition (groundCollision s))"
    and "vec_y (ballVelocity (updateBallPhysics 0 s)) = vec_y (ballVelocity (groundCollision s))"
proof -
  define g where "g = groundCollision (s \<lparr> lastBallPosition := ballPosition s \<rparr>)"
  define r where "r = rotateBall 0 (boundaryCollisionZ (boundaryCollisionX g))"
  have gy: "vec_y (ballPosition g) = vec_y (ballPosition (groundCollision s))"
           "vec_y (ballVelocity g) = vec_y (ballVelocity (groundCollision s))"
    by (simp_all add: g_def groundCollision_def Let_def)
  have ry: "vec_y (ballPosition r) = vec_y (ballPosition g)"
           "vec_y (ballVelocity r) = vec_y (ballVelocity g)"
    by (simp_all add: r_def)
  have low: "vec_y (ballPosition r) < 2"
    using assms(2) by (simp add: ry gy)
  then have "checkBackboardCollision r = r"
    by (simp add: checkBackboardCollision_def backboardCollisionOf_low)
  moreover from low have "checkHoopCollision r = r"
    by (simp add: checkHoopCollision_def hoopCollisionOf_low)
  ultimately have "updateBallPhysics 0 s = r"
    using assms(1)
    by (simp add: updateBallPhysics_def Let_def integrateBall_zero g_def r_def)
  then show "vec_y (ballPosition (updateBallPhysics 0 s)) = vec_y (ballPosition (groundCollision s))"
    and "vec_y (ballVelocity (updateBallPhysics 0 s)) = vec_y (ballVelocity (groundCollision s))"
    by (simp_all add: ry gy)
qed

lemma groundCollision_C:
  assumes "vec_y (ballPosition s) = COURT_FLOOR_Y + BALL_RADIUS - 0.01"
      and "vec_y (ballVelocity s) = - 5"
  shows "vec_y (ballPosition (groundCollision s)) = COURT_FLOOR_Y + BALL_RADIUS + LINES_Y_OFFSET"
    and "vec_y (ballVelocity (groundCollision s)) = 5 * BOUNCE_DAMPING"
  using assms
  by (simp_all add: groundCollision_def Let_def set_y_def const_defs)

text \<open>
  C6, as the code has it. A ball at height \<open>COURT_FLOOR_Y + BALL_RADIUS - 0.01\<close> falling
  at 5 m/s is put at \<open>COURT_FLOOR_Y + BALL_RADIUS + LINES_Y_OFFSET\<close> by the floor block, and
  its vertical velocity becomes \<open>5 * BOUNCE_DAMPING\<close>. The same holds after the whole of
  updateBallPhysics with no time elapsed, when the ball is in flight.
\<close>

theorem groundCollision_scenario_C:
  assumes "vec_y (ballPosition s) = COURT_FLOOR_Y + BALL_RADIUS - 0.01"
      and "vec_y (ballVelocity s) = - 5"
  shows "vec_y (ballPosition (groundCollision s)) = COURT_FLOOR_Y + BALL_RADIUS + LINES_Y_OFFSET \<and>
         vec_y (ballVelocity (groundCollision s)) = 5 * BOUNCE_DAMPING \<and>
         (isShooting s \<longrightarrow>
            vec_y (ballPosition (updateBallPhysics 0 s)) =
              COURT_FLOOR_Y + BALL_RADIUS + LINES_Y_OFFSET \<and>
            vec_y (ballVelocity (updateBallPhysics 0 s)) = 5 * BOUNCE_DAMPING)"
proof -
  have "vec_y (ballPosition (groundCollision s)) < 2"
    using groundCollision_C(1) [OF assms] by (simp add: const_defs)
  then show ?thesis
    using groundCollision_C [OF assms] low_pass_vertical [of s] by simp
qed

theorem groundCollision_scenario_C_witness:
  "vec_y (ballPosition scenarioC_state) = COURT_FLOOR_Y + BALL_RADIUS - 0.01 \<and>
   vec_y (ballVelocity scenarioC_state) = - 5 \<and> isShooting scenarioC_state \<and>
   vec_y (ballPosition (groundCollision scenarioC_state)) = 0.1313 \<and>
   vec_y (ballVelocity (groundCollision scenarioC_state)) = 3.5 \<and>
   vec_y (ballPosition (updateBallPhysics 0 scenarioC_state)) = 0.1313 \<and>
   vec_y (ballVelocity (updateBallPhysics 0 scenarioC_state)) = 3.5"
  using groundCollision_scenario_C [of scenarioC_state]
  by (simp add: scenarioC_state_def initialGameState_def const_defs)

text \<open>
  C6 as stated fails: the height after the pass is not \<open>COURT_FLOOR_Y + BALL_RADIUS\<close>.
\<close>

theorem scenario_C_counterexample:
  "\<not> (vec_y (ballPosition (groundCollision scenarioC_state)) = COURT_FLOOR_Y + BALL_RADIUS \<and>
      vec_y (ballVelocity (groundCollision scenarioC_state)) = 5 * BOUNCE_DAMPING) \<and>
   \<not> (vec_y (ballPosition (updateBallPhysics 0 scenarioC_state)) = COURT_FLOOR_Y + BALL_RADIUS \<and>
      vec_y (ballVelocity (updateBallPhysics 0 scenarioC_state)) = 5 * BOUNCE_DAMPING)"
proof -
  have s: "vec_y (ballPosition scenarioC_state) = COURT_FLOOR_Y + BALL_RADIUS - 0.01"
          "vec_y (ballVelocity scenarioC_state) = - 5" "isShooting scenarioC_state"
    by (simp_all add: scenarioC_state_def initialGameState_def)
  have g: "vec_y (ballPosition (groundCollision scenarioC_state)) = 1313 / 10000"
    using groundCollision_C(1) [OF s(1,2)] by (simp add: const_defs)
  then have "vec_y (ballPosition (updateBallPhysics 0 scenarioC_state)) = 1313 / 10000"
    using low_pass_vertical(1) [OF s(3)] by simp
  with g show ?thesis
    by (simp add: const_defs)
qed

subsection \<open>A late make in a session from the initial state\<close>

text \<open>
  Moving the ball on the floor with the right arrow held: each frame adds
  \<open>BALL_MOVEMENT_SPEED\<close> to x and changes nothing else.
\<close>

lemma run_append: "run distTo s (es @ es') = run distTo (run distTo s es) es'"
  by (simp add: run_def)

lemma handleMovement_keys [simp]: "keys (handleMovement dt s) = keys s"
  by (simp add: handleMovement_def Let_def)

lemma handleMovement_power [simp]: "shotPower (handleMovement dt s) = shotPower s"
  by (simp add: handleMovement_def Let_def)

lemma handleInput_no_power_keys:
  assumes "\<not> isShooting s" "\<not> keys s ''KeyW''" "\<not> keys s ''KeyS''"
  shows "handleInput dt s = handleMovement dt s"
  using assms by (simp add: handleInput_def handlePowerUp_def handlePowerDown_def)

lemma moveVectorOf_right:
  assumes "keys s ''ArrowRight''" "\<not> keys s ''ArrowUp''" "\<not> keys s ''ArrowDown''"
  shows "moveVectorOf s = Vector3 BALL_MOVEMENT_SPEED 0 0"
  using assms by (simp add: moveVectorOf_def Let_def)

lemma handleMovement_right:
  assumes "keys s ''ArrowRight''" "\<not> keys s ''ArrowUp''" "\<not> keys s ''ArrowDown''"
  shows "ballPosition (handleMovement dt s) =
           keepWithinCourt (add (ballPosition s) (Vector3 BALL_MOVEMENT_SPEED 0 0))"
  using assms by (simp add: handleMovement_def Let_def moveVectorOf_right)

lemma animate_move_right:
  assumes "\<not> isShooting s" "keys s ''ArrowRight''" "\<not> keys s ''ArrowUp''"
    "\<not> keys s ''ArrowDown''" "\<not> keys s ''KeyW''" "\<not> keys s ''KeyS''"
    "shotFeedbackTimer s \<le> 0"
  shows "ballPosition (animate dt s) =
           keepWithinCourt (add (ballPosition s) (Vector3 BALL_MOVEMENT_SPEED 0 0))"
    and "\<not> isShooting (animate dt s)"
    and "keys (animate dt s) = keys s"
    and "shotPower (animate dt s) = shotPower s"
    and "score (animate dt s) = score s"
    and "shotsMade (animate dt s) = shotsMade s"
    and "shotAttempts (animate dt s) = shotAttempts s"
    and "lastShotResult (animate dt s) = lastShotResult s"
    and "shotFeedbackTimer (animate dt s) = shotFeedbackTimer s"
  using assms
  by (simp_all add: animate_def handleInput_no_power_keys updateBallPhysics_grounded
        shotFeedbackTimeout_def handleMovement_right)

lemma keepWithinCourt_inside:
  assumes "\<bar>x\<bar> \<le> 138787 / 10000" "\<bar>z\<bar> \<le> 73787 / 10000"
  shows "keepWithinCourt (Vector3 x y z) = Vector3 x y z"
  using assms by (simp add: keepWithinCourt_def Let_def const_defs)

lemma move_right_frames:
  assumes "\<not> isShooting s" "keys s ''ArrowRight''" "\<not> keys s ''ArrowUp''"
    "\<not> keys s ''ArrowDown''" "\<not> keys s ''KeyW''" "\<not> keys s ''KeyS''"
    "shotFeedbackTimer s \<le> 0"
    "ballPosition s = Vector3 x y 0" "0 \<le> x" "x + 2 / 25 * real n \<le> 138787 / 10000"
  shows "ballPosition (run distTo s (replicate n (Frame dt))) = Vector3 (x + 2 / 25 * real n) y 0 \<and>
         \<not> isShooting (run distTo s (replicate n (Frame dt))) \<and>
         keys (run distTo s (replicate n (Frame dt))) = keys s \<and>
         shotPower (run distTo s (replicate n (Frame dt))) = shotPower s \<and>
         score (run distTo s (replicate n (Frame dt))) = score s \<and>
         shotsMade (run distTo s (replicate n (Frame dt))) = shotsMade s \<and>
         shotAttempts (run distTo s (replicate n (Frame dt))) = shotAttempts s \<and>
         lastShotResult (run distTo s (replicate n (Frame dt))) = lastShotResult s \<and>
         shotFeedbackTimer (run distTo s (replicate n (Frame dt))) = shotFeedbackTimer s"
  using assms
proof (induction n arbitrary: s x)
  case 0
  then show ?case by simp
next
  case (Suc n)
  let ?t = "animate dt s"
  have "2 / 25 * real (Suc n) = 2 / 25 + 2 / 25 * real n"
    by (simp add: distrib_left)
  with Suc.prems(10) have more: "x + 2 / 25 + 2 / 25 * real n \<le> 138787 / 10000"
    by linarith
  have "0 \<le> 2 / 25 * real n"
    by simp
  with more have one: "x + 2 / 25 \<le> 138787 / 10000"
    by linarith
  have pos: "ballPosition ?t = Vector3 (x + 2 / 25) y 0"
    using animate_move_right(1) [OF Suc.prems(1-7), of dt] Suc.prems(8,9) one
    by (simp add: add_def BALL_MOVEMENT_SPEED_def keepWithinCourt_inside)
  have "ballPosition (run distTo ?t (replicate n (Frame dt))) = Vector3 (x + 2 / 25 + 2 / 25 * real n) y 0 \<and>
         \<not> isShooting (run distTo ?t (replicate n (Frame dt))) \<and>
         keys (run distTo ?t (replicate n (Frame dt))) = keys ?t \<and>
         shotPower (run distTo ?t (replicate n (Frame dt))) = shotPower ?t \<and>
         score (run distTo ?t (replicate n (Frame dt))) = score ?t \<and>
         shotsMade (run distTo ?t (replicate n (Frame dt))) = shotsMade ?t \<and>
         shotAttempts (run distTo ?t (replicate n (Frame dt))) = shotAttempts ?t \<and>
         lastShotResult (run distTo ?t (replicate n (Frame dt))) = lastShotResult ?t \<and>
         shotFeedbackTimer (run distTo ?t (replicate n (Frame dt))) = shotFeedbackTimer ?t"
  proof (rule Suc.IH)
    show "ballPosition ?t = Vector3 (x + 2 / 25) y 0" by (rule pos)
    show "0 \<le> x + 2 / 25" using Suc.prems(9) by simp
    show "x + 2 / 25 + 2 / 25 * real n \<le> 138787 / 10000"
      by (rule more)
  qed (use animate_move_right [OF Suc.prems(1-7), of dt] Suc.prems in simp_all)
  then show ?case
    using animate_move_right [OF Suc.prems(1-7), of dt]
    by (simp add: algebra_simps)
qed

text \<open>
  The scoring test and the rim test of the right hoop with the distances squared, and the two
  cases of the feedback timer.
\<close>

lemma madeBasketTest_right_sq:
  "madeBasketTest rightHoop s \<longleftrightarrow>
     (vec_x (ballPosition s) - 2577 / 200) * (vec_x (ballPosition s) - 2577 / 200) +
       vec_z (ballPosition s) * vec_z (ballPosition s) < (3287 / 20000)\<^sup>2 \<and>
     \<bar>vec_y (ballPosition s) - 61 / 20\<bar> < 1213 / 10000 \<and> vec_y (ballVelocity s) < 0"
proof -
  have "(sqrt ((vec_x (ballPosition s) - 2577 / 200) * (vec_x (ballPosition s) - 2577 / 200) +
               vec_z (ballPosition s) * vec_z (ballPosition s)) < 3287 / 20000) =
        ((vec_x (ballPosition s) - 2577 / 200) * (vec_x (ballPosition s) - 2577 / 200) +
               vec_z (ballPosition s) * vec_z (ballPosition s) < (3287 / 20000)\<^sup>2)"
    by (rule sqrt_less_iff) simp
  then show ?thesis
    by (simp add: madeBasketTest_right)
qed

lemma rimCollisionTest_right_inner:
  assumes "(vec_x (ballPosition s) - 2577 / 200) * (vec_x (ballPosition s) - 2577 / 200) +
             vec_z (ballPosition s) * vec_z (ballPosition s) \<le> (1037 / 10000)\<^sup>2"
  shows "\<not> rimCollisionTest rightHoop s"
proof -
  have "sqrt ((vec_x (ballPosition s) - 2577 / 200) * (vec_x (ballPosition s) - 2577 / 200) +
               vec_z (ballPosition s) * vec_z (ballPosition s)) \<le> 1037 / 10000"
    using assms by (intro real_le_lsqrt) simp_all
  then show ?thesis
    by (simp add: rimCollisionTest_right)
qed

lemma close_to_right_rim:
  assumes "(vec_x (ballPosition s) - 2577 / 200) * (vec_x (ballPosition s) - 2577 / 200) +
             vec_z (ballPosition s) * vec_z (ballPosition s) < 1"
  shows "hoopCollisionOf leftHoop s = s"
proof (rule hoopCollisionOf_idle)
  have "sqrt ((vec_x (ballPosition s) - 12.885) * (vec_x (ballPosition s) - 12.885) +
               vec_z (ballPosition s) * vec_z (ballPosition s)) < 1"
    using assms by simp
  from right_close_left_idle [OF this]
  show "\<not> madeBasketTest leftHoop s" "\<not> rimCollisionTest leftHoop s"
    by simp_all
qed

lemma shotFeedbackTimeout_expire:
  assumes "0 < shotFeedbackTimer s" "shotFeedbackTimer s \<le> dt" "lastShotResult s = ''''"
  shows "shotFeedbackTimeout dt s =
           s \<lparr> shotFeedbackTimer := shotFeedbackTimer s - dt, lastShotResult := ''missed'' \<rparr>"
  using assms by (simp add: shotFeedbackTimeout_def Let_def)

lemma shotFeedbackTimeout_idle:
  "shotFeedbackTimer s \<le> 0 \<Longrightarrow> shotFeedbackTimeout dt s = s"
  by (simp add: shotFeedbackTimeout_def)

text \<open>
  The stages of updateBallPhysics on a ball at a known position: integration, the floor,
  the walls and the backboards.
\<close>

lemma integrateBall_at:
  assumes "ballPosition s = Vector3 x y z" "ballVelocity s = Vector3 vx vy vz"
  shows "ballVelocity (integrateBall dt s) = Vector3 vx (vy + GRAVITY * dt) vz"
    and "ballPosition (integrateBall dt s) =
           Vector3 (x + vx * dt) (y + (vy + GRAVITY * dt) * dt) (z + vz * dt)"
  using assms by (simp_all add: integrateBall_def Let_def set_y_def multiplyScalar_def add_def)

lemma groundCollision_skip:
  "COURT_FLOOR_Y + BALL_RADIUS + LINES_Y_OFFSET < vec_y (ballPosition s) \<Longrightarrow> groundCollision s = s"
  by (simp add: groundCollision_def)

lemma groundCollision_bounce:
  assumes "ballPosition s = Vector3 x y z" "ballVelocity s = Vector3 vx vy vz"
    "y \<le> COURT_FLOOR_Y + BALL_RADIUS + LINES_Y_OFFSET" "1 / 10 \<le> \<bar>vy\<bar> * (7 / 10)"
  shows "ballPosition (groundCollision s) = Vector3 x (COURT_FLOOR_Y + BALL_RADIUS + LINES_Y_OFFSET) z"
    and "ballVelocity (groundCollision s) =
           Vector3 (vx * BOUNCE_DAMPING) (- vy * BOUNCE_DAMPING) (vz * BOUNCE_DAMPING)"
    and "isShooting (groundCollision s) = isShooting s"
proof -
  have "\<not> \<bar>- vy * BOUNCE_DAMPING\<bar> < 0.1"
    using assms(4) by (simp add: BOUNCE_DAMPING_def abs_mult)
  then show "ballPosition (groundCollision s) = Vector3 x (COURT_FLOOR_Y + BALL_RADIUS + LINES_Y_OFFSET) z"
    and "ballVelocity (groundCollision s) =
           Vector3 (vx * BOUNCE_DAMPING) (- vy * BOUNCE_DAMPING) (vz * BOUNCE_DAMPING)"
    and "isShooting (groundCollision s) = isShooting s"
    using assms(1-3) by (simp_all add: groundCollision_def Let_def set_y_def)
qed

lemma boundaryCollisionX_skip:
  "\<bar>vec_x (ballPosition s)\<bar> < COURT_LENGTH / 2 - BALL_RADIUS \<Longrightarrow> boundaryCollisionX s = s"
  by (auto simp: boundaryCollisionX_def Let_def)

lemma boundaryCollisionZ_skip:
  "\<bar>vec_z (ballPosition s)\<bar> < COURT_WIDTH / 2 - BALL_RADIUS \<Longrightarrow> boundaryCollisionZ s = s"
  by (auto simp: boundaryCollisionZ_def Let_def)

lemma backboardCollisionOf_far:
  assumes "1613 / 10000 < \<bar>vec_x (ballPosition s) - 133 / 10\<bar>"
      and "1613 / 10000 < \<bar>vec_x (ballPosition s) + 133 / 10\<bar>"
      and "hoop = rightHoop \<or> hoop = leftHoop"
  shows "backboardCollisionOf hoop s = s"
  using assms
  by (auto simp: backboardCollisionOf_def Let_def sub_def rightBackboard_world
        leftBackboard_world const_defs)

lemma checkBackboardCollision_clear:
  assumes "vec_y (ballPosition s) < 2 \<or>
           1613 / 10000 < \<bar>vec_x (ballPosition s) - 133 / 10\<bar> \<and>
           1613 / 10000 < \<bar>vec_x (ballPosition s) + 133 / 10\<bar>"
  shows "checkBackboardCollision s = s"
  using assms
  by (auto simp: checkBackboardCollision_def backboardCollisionOf_low backboardCollisionOf_far)

lemma beforeHoopCheck_after_walls:
  assumes "\<bar>vec_x (ballPosition g)\<bar> < COURT_LENGTH / 2 - BALL_RADIUS"
      and "\<bar>vec_z (ballPosition g)\<bar> < COURT_WIDTH / 2 - BALL_RADIUS"
      and "vec_y (ballPosition g) < 2 \<or>
           1613 / 10000 < \<bar>vec_x (ballPosition g) - 133 / 10\<bar> \<and>
           1613 / 10000 < \<bar>vec_x (ballPosition g) + 133 / 10\<bar>"
      and "g = groundCollision (integrateBall dt (s \<lparr> lastBallPosition := ballPosition s \<rparr>))"
  shows "ballPosition (beforeHoopCheck dt s) = ballPosition g"
    and "ballVelocity (beforeHoopCheck dt s) = ballVelocity g"
    and "isShooting (beforeHoopCheck dt s) = isShooting g"
    and "isThreePointer (beforeHoopCheck dt s) = isThreePointer g"
proof -
  have w: "boundaryCollisionZ (boundaryCollisionX g) = g"
    using assms(1,2) by (simp add: boundaryCollisionX_skip boundaryCollisionZ_skip)
  have "checkBackboardCollision (rotateBall dt g) = rotateBall dt g"
    using assms(3) by (intro checkBackboardCollision_clear) simp
  then have "beforeHoopCheck dt s = rotateBall dt g"
    by (simp add: beforeHoopCheck_def assms(4) [symmetric] w)
  then show "ballPosition (beforeHoopCheck dt s) = ballPosition g"
    and "ballVelocity (beforeHoopCheck dt s) = ballVelocity g"
    and "isShooting (beforeHoopCheck dt s) = isShooting g"
    and "isThreePointer (beforeHoopCheck dt s) = isThreePointer g"
    by (simp_all add: rotateBall_def Let_def)
qed

text \<open>
  Three kinds of frame of a shot in flight: a bounce on the floor, a frame that ends with the
  ball rising inside the right rim, and a frame that ends with the ball falling inside the
  scoring region of the right rim.
\<close>

lemma animate_in_flight:
  "inFlightWith s p v result timer made \<Longrightarrow>
   animate dt s = shotFeedbackTimeout dt (checkHoopCollision (beforeHoopCheck dt s))"
  by (simp add: inFlightWith_def animate_shooting)

lemma frame_floor_bounce:
  assumes f: "inFlightWith s (Vector3 x y z) (Vector3 vx vy vz) result timer made"
    and low: "y + (vy + GRAVITY * dt) * dt \<le> 1313 / 10000"
    and fast: "1 / 10 \<le> \<bar>vy + GRAVITY * dt\<bar> * (7 / 10)"
    and inside: "\<bar>x + vx * dt\<bar> < 138787 / 10000" "\<bar>z + vz * dt\<bar> < 73787 / 10000"
  shows "inFlightWith (checkHoopCollision (beforeHoopCheck dt s))
           (Vector3 (x + vx * dt) (1313 / 10000) (z + vz * dt))
           (Vector3 (vx * (7 / 10)) (- (vy + GRAVITY * dt) * (7 / 10)) (vz * (7 / 10)))
           result timer made"
proof -
  define i where "i = integrateBall dt (s \<lparr> lastBallPosition := ballPosition s \<rparr>)"
  define g where "g = groundCollision i"
  define b where "b = beforeHoopCheck dt s"
  have s: "ballPosition s = Vector3 x y z" "ballVelocity s = Vector3 vx vy vz" "isShooting s"
    "\<not> isThreePointer s"
    using f by (simp_all add: inFlightWith_def)
  have i: "ballVelocity i = Vector3 vx (vy + GRAVITY * dt) vz"
          "ballPosition i = Vector3 (x + vx * dt) (y + (vy + GRAVITY * dt) * dt) (z + vz * dt)"
    unfolding i_def by (rule integrateBall_at; simp add: s)+
  have floor: "COURT_FLOOR_Y + BALL_RADIUS + LINES_Y_OFFSET = 1313 / 10000"
    by (simp add: const_defs)
  have g: "ballPosition g = Vector3 (x + vx * dt) (1313 / 10000) (z + vz * dt)"
          "ballVelocity g = Vector3 (vx * (7 / 10)) (- (vy + GRAVITY * dt) * (7 / 10)) (vz * (7 / 10))"
          "isShooting g" "\<not> isThreePointer g"
    using groundCollision_bounce [OF i(2) i(1), unfolded floor, OF low fast] s(3,4)
    by (simp_all add: g_def BOUNCE_DAMPING_def i_def)
  have w: "\<bar>vec_x (ballPosition g)\<bar> < COURT_LENGTH / 2 - BALL_RADIUS"
          "\<bar>vec_z (ballPosition g)\<bar> < COURT_WIDTH / 2 - BALL_RADIUS"
          "vec_y (ballPosition g) < 2 \<or>
             1613 / 10000 < \<bar>vec_x (ballPosition g) - 133 / 10\<bar> \<and>
             1613 / 10000 < \<bar>vec_x (ballPosition g) + 133 / 10\<bar>"
    using inside by (simp_all add: g const_defs)
  have gd: "g = groundCollision (integrateBall dt (s \<lparr> lastBallPosition := ballPosition s \<rparr>))"
    by (simp add: g_def i_def)
  note b = beforeHoopCheck_after_walls [OF w gd, folded b_def]
  have "vec_y (ballPosition b) < 2"
    by (simp add: b g)
  then have hb: "checkHoopCollision b = b"
    by (simp add: checkHoopCollision_def hoopCollisionOf_low)
  have sc: "lastShotResult b = result" "shotFeedbackTimer b = timer" "shotsMade b = made"
    "score b = 2 * made" "shotAttempts b = 1"
    using f by (simp_all add: b_def inFlightWith_def)
  have "inFlightWith (checkHoopCollision b)
           (Vector3 (x + vx * dt) (1313 / 10000) (z + vz * dt))
           (Vector3 (vx * (7 / 10)) (- (vy + GRAVITY * dt) * (7 / 10)) (vz * (7 / 10)))
           result timer made"
    unfolding hb inFlightWith_def using sc b g by simp
  then show ?thesis
    unfolding b_def .
qed

lemma frame_free_over_right_rim:
  assumes f: "inFlightWith s (Vector3 x y z) (Vector3 vx vy vz) result timer made"
    and high: "1313 / 10000 < y + (vy + GRAVITY * dt) * dt"
    and inside: "\<bar>x + vx * dt\<bar> < 138787 / 10000" "\<bar>z + vz * dt\<bar> < 73787 / 10000"
    and clear: "1613 / 10000 < \<bar>x + vx * dt - 133 / 10\<bar>" "1613 / 10000 < \<bar>x + vx * dt + 133 / 10\<bar>"
    and rising: "0 \<le> vy + GRAVITY * dt"
    and inner: "(x + vx * dt - 2577 / 200) * (x + vx * dt - 2577 / 200) +
                (z + vz * dt) * (z + vz * dt) \<le> (1037 / 10000)\<^sup>2"
  shows "inFlightWith (checkHoopCollision (beforeHoopCheck dt s))
           (Vector3 (x + vx * dt) (y + (vy + GRAVITY * dt) * dt) (z + vz * dt))
           (Vector3 vx (vy + GRAVITY * dt) vz)
           result timer made"
proof -
  define i where "i = integrateBall dt (s \<lparr> lastBallPosition := ballPosition s \<rparr>)"
  define b where "b = beforeHoopCheck dt s"
  have s: "ballPosition s = Vector3 x y z" "ballVelocity s = Vector3 vx vy vz" "isShooting s"
    "\<not> isThreePointer s"
    using f by (simp_all add: inFlightWith_def)
  have i: "ballVelocity i = Vector3 vx (vy + GRAVITY * dt) vz"
          "ballPosition i = Vector3 (x + vx * dt) (y + (vy + GRAVITY * dt) * dt) (z + vz * dt)"
    unfolding i_def by (rule integrateBall_at; simp add: s)+
  have gi: "groundCollision i = i"
    using high by (intro groundCollision_skip) (simp add: i const_defs)
  have w: "\<bar>vec_x (ballPosition i)\<bar> < COURT_LENGTH / 2 - BALL_RADIUS"
          "\<bar>vec_z (ballPosition i)\<bar> < COURT_WIDTH / 2 - BALL_RADIUS"
          "vec_y (ballPosition i) < 2 \<or>
             1613 / 10000 < \<bar>vec_x (ballPosition i) - 133 / 10\<bar> \<and>
             1613 / 10000 < \<bar>vec_x (ballPosition i) + 133 / 10\<bar>"
    using inside clear by (simp_all add: i const_defs)
  have gd: "i = groundCollision (integrateBall dt (s \<lparr> lastBallPosition := ballPosition s \<rparr>))"
    using gi by (simp add: i_def)
  note b = beforeHoopCheck_after_walls [OF w gd, folded b_def]
  have "\<not> madeBasketTest rightHoop b"
    using rising by (simp add: madeBasketTest_right_sq b i)
  moreover have "\<not> rimCollisionTest rightHoop b"
    using inner by (intro rimCollisionTest_right_inner) (simp add: b i)
  ultimately have r: "hoopCollisionOf rightHoop b = b"
    by (rule hoopCollisionOf_idle)
  have "(vec_x (ballPosition b) - 2577 / 200) * (vec_x (ballPosition b) - 2577 / 200) +
          vec_z (ballPosition b) * vec_z (ballPosition b) < 1"
    using inner by (simp add: b i power2_eq_square)
  then have "hoopCollisionOf leftHoop b = b"
    by (rule close_to_right_rim)
  with r have hb: "checkHoopCollision b = b"
    by (simp add: checkHoopCollision_def)
  have sc: "lastShotResult b = result" "shotFeedbackTimer b = timer" "shotsMade b = made"
    "score b = 2 * made" "shotAttempts b = 1"
    using f by (simp_all add: b_def inFlightWith_def)
  have ii: "isShooting i" "\<not> isThreePointer i"
    using s(3,4) by (simp_all add: i_def)
  have "inFlightWith (checkHoopCollision b)
           (Vector3 (x + vx * dt) (y + (vy + GRAVITY * dt) * dt) (z + vz * dt))
           (Vector3 vx (vy + GRAVITY * dt) vz)
           result timer made"
    unfolding hb inFlightWith_def using sc b i ii by simp
  then show ?thesis
    unfolding b_def .
qed

lemma frame_score_at_right_rim:
  assumes f: "inFlightWith s (Vector3 x y z) (Vector3 vx vy vz) result timer made"
    and pending: "result \<noteq> ''made''"
    and high: "1313 / 10000 < y + (vy + GRAVITY * dt) * dt"
    and inside: "\<bar>x + vx * dt\<bar> < 138787 / 10000" "\<bar>z + vz * dt\<bar> < 73787 / 10000"
    and clear: "1613 / 10000 < \<bar>x + vx * dt - 133 / 10\<bar>" "1613 / 10000 < \<bar>x + vx * dt + 133 / 10\<bar>"
    and falling: "vy + GRAVITY * dt < 0"
    and level: "\<bar>y + (vy + GRAVITY * dt) * dt - 61 / 20\<bar> < 1213 / 10000"
    and inner: "(x + vx * dt - 2577 / 200) * (x + vx * dt - 2577 / 200) +
                (z + vz * dt) * (z + vz * dt) < (3287 / 20000)\<^sup>2"
  shows "inFlightWith (checkHoopCollision (beforeHoopCheck dt s))
           (Vector3 (x + vx * dt) (y + (vy + GRAVITY * dt) * dt) (z + vz * dt))
           (Vector3 vx (vy + GRAVITY * dt) vz)
           ''made'' timer (made + 1)"
proof -
  define i where "i = integrateBall dt (s \<lparr> lastBallPosition := ballPosition s \<rparr>)"
  define b where "b = beforeHoopCheck dt s"
  have s: "ballPosition s = Vector3 x y z" "ballVelocity s = Vector3 vx vy vz" "isShooting s"
    "\<not> isThreePointer s"
    using f by (simp_all add: inFlightWith_def)
  have i: "ballVelocity i = Vector3 vx (vy + GRAVITY * dt) vz"
          "ballPosition i = Vector3 (x + vx * dt) (y + (vy + GRAVITY * dt) * dt) (z + vz * dt)"
    unfolding i_def by (rule integrateBall_at; simp add: s)+
  have gi: "groundCollision i = i"
    using high by (intro groundCollision_skip) (simp add: i const_defs)
  have w: "\<bar>vec_x (ballPosition i)\<bar> < COURT_LENGTH / 2 - BALL_RADIUS"
          "\<bar>vec_z (ballPosition i)\<bar> < COURT_WIDTH / 2 - BALL_RADIUS"
          "vec_y (ballPosition i) < 2 \<or>
             1613 / 10000 < \<bar>vec_x (ballPosition i) - 133 / 10\<bar> \<and>
             1613 / 10000 < \<bar>vec_x (ballPosition i) + 133 / 10\<bar>"
    using inside clear by (simp_all add: i const_defs)
  have gd: "i = groundCollision (integrateBall dt (s \<lparr> lastBallPosition := ballPosition s \<rparr>))"
    using gi by (simp add: i_def)
  note b = beforeHoopCheck_after_walls [OF w gd, folded b_def]
  have m: "madeBasketTest rightHoop b"
    using falling level inner by (simp add: madeBasketTest_right_sq b i)
  have bs: "lastShotResult b = result" "shotFeedbackTimer b = timer" "shotsMade b = made"
    "score b = 2 * made" "shotAttempts b = 1"
    using f by (simp_all add: b_def inFlightWith_def)
  have ii: "isShooting i" "\<not> isThreePointer i"
    using s(3,4) by (simp_all add: i_def)
  have hc: "checkHoopCollision b = scoreBasket rightHoop b"
  proof -
    have r: "hoopCollisionOf rightHoop b = scoreBasket rightHoop b"
      using m by (simp add: hoopCollisionOf_def)
    have "(vec_x (ballPosition (scoreBasket rightHoop b)) - 2577 / 200) *
          (vec_x (ballPosition (scoreBasket rightHoop b)) - 2577 / 200) +
          vec_z (ballPosition (scoreBasket rightHoop b)) *
          vec_z (ballPosition (scoreBasket rightHoop b)) < 1"
      using inner by (simp add: b i power2_eq_square)
    then have "hoopCollisionOf leftHoop (scoreBasket rightHoop b) = scoreBasket rightHoop b"
      by (rule close_to_right_rim)
    with r show ?thesis
      by (simp add: checkHoopCollision_def)
  qed
  have c: "ballPosition (checkHoopCollision b) = ballPosition b"
          "ballVelocity (checkHoopCollision b) = ballVelocity b"
          "isShooting (checkHoopCollision b) = isShooting b"
          "shotAttempts (checkHoopCollision b) = shotAttempts b"
          "shotFeedbackTimer (checkHoopCollision b) = shotFeedbackTimer b"
          "isThreePointer (checkHoopCollision b) = isThreePointer b"
    unfolding hc by simp_all
  have sc: "score (checkHoopCollision b) = 2 * made + 2"
           "shotsMade (checkHoopCollision b) = made + 1"
           "lastShotResult (checkHoopCollision b) = ''made''"
    using checkHoopCollision_made [of b] m pending bs b ii by simp_all
  have "inFlightWith (checkHoopCollision b)
           (Vector3 (x + vx * dt) (y + (vy + GRAVITY * dt) * dt) (z + vz * dt))
           (Vector3 vx (vy + GRAVITY * dt) vz)
           ''made'' timer (made + 1)"
    unfolding inFlightWith_def c sc
    using bs b i ii by simp
  then show ?thesis
    unfolding b_def .
qed

lemma inFlightWith_timeout_expire:
  assumes "inFlightWith h p v '''' timer made" "0 < timer" "timer \<le> dt"
  shows "inFlightWith (shotFeedbackTimeout dt h) p v ''missed'' (timer - dt) made"
  using assms by (simp add: inFlightWith_def shotFeedbackTimeout_expire)

lemma inFlightWith_timeout_idle:
  assumes "inFlightWith h p v result timer made" "timer \<le> 0"
  shows "inFlightWith (shotFeedbackTimeout dt h) p v result timer made"
  using assms by (simp add: inFlightWith_def shotFeedbackTimeout_idle)

text \<open>
  The session frame by frame: the shot, the bounce on the floor during which the feedback
  time runs out, the rise through the rim, and the fall into it.
\<close>

lemma sqrt_small: "sqrt (1 / 40000) = 1 / 200"
  by (rule real_sqrt_unique) (simp_all add: power2_eq_square)

lemma shootBall_under_right_rim:
  assumes "\<not> isShooting s" "ballPosition s = Vector3 (322 / 25) (1313 / 10000) 0"
    "shotPower s = 1 / 2" "shotAttempts s = 0" "score s = 0" "shotsMade s = 0"
  shows "inFlightWith (shootBall distanceTo s) (Vector3 (322 / 25) (1313 / 10000) 0)
           (Vector3 (144991 / 40000000) (22419523357 / 2000000000) 0) '''' (21 / 10) 0"
  using assms
  by (simp add: inFlightWith_def shootBall_def rightRim_world leftRim_world Let_def
        distanceTo_def length_v_def sub_def multiplyScalar_def isThreePointShot_def
        leftRimCentre_def const_defs sqrt_small)

lemma session_reaches_shot:
  "inFlightWith
     (run distanceTo initialGameState
        (KeyDown ''ArrowRight'' # replicate 161 (Frame 0.016) @
         [KeyUp ''ArrowRight'', KeyDown ''Space'']))
     (Vector3 (322 / 25) (1313 / 10000) 0)
     (Vector3 (144991 / 40000000) (22419523357 / 2000000000) 0) '''' (21 / 10) 0"
proof -
  define a where "a = onKeyDown distanceTo ''ArrowRight'' initialGameState"
  define m where "m = run distanceTo a (replicate 161 (Frame 0.016))"
  have a: "\<not> isShooting a" "keys a ''ArrowRight''" "\<not> keys a ''ArrowUp''"
    "\<not> keys a ''ArrowDown''" "\<not> keys a ''KeyW''" "\<not> keys a ''KeyS''"
    "shotFeedbackTimer a \<le> 0" "ballPosition a = Vector3 0 (1313 / 10000) 0"
    "shotPower a = 1 / 2" "score a = 0" "shotsMade a = 0" "shotAttempts a = 0"
    by (simp_all add: a_def onKeyDown_def initialGameState_def Let_def const_defs)
  have "(0::real) \<le> 0" "(0::real) + 2 / 25 * real (161::nat) \<le> 138787 / 10000"
    by simp_all
  from move_right_frames [OF a(1-8) this, of distanceTo "0.016"]
  have m: "ballPosition m = Vector3 (322 / 25) (1313 / 10000) 0" "\<not> isShooting m"
    "shotPower m = 1 / 2" "score m = 0" "shotsMade m = 0" "shotAttempts m = 0"
    using a(9-12) by (simp_all add: m_def)
  let ?k = "(onKeyUp ''ArrowRight'' m) \<lparr> keys := (keys (onKeyUp ''ArrowRight'' m))(''Space'' := True) \<rparr>"
  have "inFlightWith (shootBall distanceTo ?k) (Vector3 (322 / 25) (1313 / 10000) 0)
          (Vector3 (144991 / 40000000) (22419523357 / 2000000000) 0) '''' (21 / 10) 0"
    by (rule shootBall_under_right_rim) (simp_all add: onKeyUp_def m)
  moreover have "run distanceTo initialGameState
        (KeyDown ''ArrowRight'' # replicate 161 (Frame 0.016) @
         [KeyUp ''ArrowRight'', KeyDown ''Space'']) = onKeyDown distanceTo ''Space'' (onKeyUp ''ArrowRight'' m)"
    unfolding a_def m_def by (simp only: run_Cons run_append run_Nil step.simps)
  moreover have "onKeyDown distanceTo ''Space'' (onKeyUp ''ArrowRight'' m) = shootBall distanceTo ?k"
    by (simp add: onKeyDown_def Let_def)
  ultimately show ?thesis
    by simp
qed

lemma session_floor_bounce:
  "inFlightWith (run distanceTo initialGameState lateMake_session)
     (Vector3 (5155914757 / 400000000) (1313 / 10000) 0)
     (Vector3 (1014937 / 400000000) (213503336501 / 20000000000) 0) ''missed'' (- 3 / 5) 0"
proof -
  define h where "h = run distanceTo initialGameState
        (KeyDown ''ArrowRight'' # replicate 161 (Frame 0.016) @
         [KeyUp ''ArrowRight'', KeyDown ''Space''])"
  note h = session_reaches_shot [folded h_def]
  have "inFlightWith (checkHoopCollision (beforeHoopCheck (27 / 10) h))
           (Vector3 (322 / 25 + 144991 / 40000000 * (27 / 10)) (1313 / 10000) (0 + 0 * (27 / 10)))
           (Vector3 (144991 / 40000000 * (7 / 10))
              (- (22419523357 / 2000000000 + GRAVITY * (27 / 10)) * (7 / 10)) (0 * (7 / 10)))
           '''' (21 / 10) 0"
    by (rule frame_floor_bounce [OF h]) (simp_all add: GRAVITY_def)
  then have "inFlightWith (checkHoopCollision (beforeHoopCheck (27 / 10) h))
     (Vector3 (5155914757 / 400000000) (1313 / 10000) 0)
     (Vector3 (1014937 / 400000000) (213503336501 / 20000000000) 0) '''' (21 / 10) 0"
    by (simp add: GRAVITY_def)
  then have "inFlightWith (shotFeedbackTimeout (27 / 10) (checkHoopCollision (beforeHoopCheck (27 / 10) h)))
     (Vector3 (5155914757 / 400000000) (1313 / 10000) 0)
     (Vector3 (1014937 / 400000000) (213503336501 / 20000000000) 0) ''missed'' (21 / 10 - 27 / 10) 0"
    by (rule inFlightWith_timeout_expire) simp_all
  then have "inFlightWith (animate (27 / 10) h)
     (Vector3 (5155914757 / 400000000) (1313 / 10000) 0)
     (Vector3 (1014937 / 400000000) (213503336501 / 20000000000) 0) ''missed'' (- 3 / 5) 0"
    by (simp add: animate_in_flight [OF h])
  moreover have "run distanceTo initialGameState lateMake_session = animate (27 / 10) h"
  proof -
    have "lateMake_session = (KeyDown ''ArrowRight'' # replicate 161 (Frame 0.016) @
         [KeyUp ''ArrowRight'', KeyDown ''Space'']) @ [Frame (27 / 10)]"
      by (simp add: lateMake_session_def)
    then have "run distanceTo initialGameState lateMake_session = run distanceTo h [Frame (27 / 10)]"
      unfolding h_def by (simp only: run_append [symmetric])
    then show ?thesis
      by (simp add: run_def)
  qed
  ultimately show ?thesis
    by simp
qed

lemma session_rises_through_rim:
  "inFlightWith (run distanceTo initialGameState (lateMake_session @ [Frame 0.6]))
     (Vector3 (6445654649 / 500000000) (300840009503 / 100000000000) 0)
     (Vector3 (1014937 / 400000000) (95903336501 / 20000000000) 0) ''missed'' (- 3 / 5) 0"
proof -
  define h where "h = run distanceTo initialGameState lateMake_session"
  note h = session_floor_bounce [folded h_def]
  have "inFlightWith (checkHoopCollision (beforeHoopCheck (3 / 5) h))
           (Vector3 (5155914757 / 400000000 + 1014937 / 400000000 * (3 / 5))
              (1313 / 10000 + (213503336501 / 20000000000 + GRAVITY * (3 / 5)) * (3 / 5))
              (0 + 0 * (3 / 5)))
           (Vector3 (1014937 / 400000000) (213503336501 / 20000000000 + GRAVITY * (3 / 5)) 0)
           ''missed'' (- 3 / 5) 0"
    by (rule frame_free_over_right_rim [OF h]) (simp_all add: GRAVITY_def power2_eq_square)
  then have "inFlightWith (checkHoopCollision (beforeHoopCheck (3 / 5) h))
     (Vector3 (6445654649 / 500000000) (300840009503 / 100000000000) 0)
     (Vector3 (1014937 / 400000000) (95903336501 / 20000000000) 0) ''missed'' (- 3 / 5) 0"
    by (simp add: GRAVITY_def)
  then have "inFlightWith (shotFeedbackTimeout (3 / 5) (checkHoopCollision (beforeHoopCheck (3 / 5) h)))
     (Vector3 (6445654649 / 500000000) (300840009503 / 100000000000) 0)
     (Vector3 (1014937 / 400000000) (95903336501 / 20000000000) 0) ''missed'' (- 3 / 5) 0"
    by (rule inFlightWith_timeout_idle) simp
  then have "inFlightWith (animate (3 / 5) h)
     (Vector3 (6445654649 / 500000000) (300840009503 / 100000000000) 0)
     (Vector3 (1014937 / 400000000) (95903336501 / 20000000000) 0) ''missed'' (- 3 / 5) 0"
    by (simp add: animate_in_flight [OF h])
  moreover have "run distanceTo initialGameState (lateMake_session @ [Frame 0.6]) = animate (3 / 5) h"
    unfolding h_def by (simp only: run_append) (simp add: run_def)
  ultimately show ?thesis
    by simp
qed

lemma session_falls_into_rim:
  "inFlightWith (run distanceTo initialGameState (lateMake_session @ [Frame 0.6, Frame 0.5]))
     (Vector3 (51570311877 / 4000000000) (591196701511 / 200000000000) 0)
     (Vector3 (1014937 / 400000000) (- 2096663499 / 20000000000) 0) ''made'' (- 3 / 5) 1"
proof -
  define h where "h = run distanceTo initialGameState (lateMake_session @ [Frame 0.6])"
  note h = session_rises_through_rim [folded h_def]
  have "inFlightWith (checkHoopCollision (beforeHoopCheck (1 / 2) h))
           (Vector3 (6445654649 / 500000000 + 1014937 / 400000000 * (1 / 2))
              (300840009503 / 100000000000 + (95903336501 / 20000000000 + GRAVITY * (1 / 2)) * (1 / 2))
              (0 + 0 * (1 / 2)))
           (Vector3 (1014937 / 400000000) (95903336501 / 20000000000 + GRAVITY * (1 / 2)) 0)
           ''made'' (- 3 / 5) (0 + 1)"
    by (rule frame_score_at_right_rim [OF h]) (simp_all add: GRAVITY_def power2_eq_square)
  then have "inFlightWith (checkHoopCollision (beforeHoopCheck (1 / 2) h))
     (Vector3 (51570311877 / 4000000000) (591196701511 / 200000000000) 0)
     (Vector3 (1014937 / 400000000) (- 2096663499 / 20000000000) 0) ''made'' (- 3 / 5) 1"
    by (simp add: GRAVITY_def)
  then have "inFlightWith (shotFeedbackTimeout (1 / 2) (checkHoopCollision (beforeHoopCheck (1 / 2) h)))
     (Vector3 (51570311877 / 4000000000) (591196701511 / 200000000000) 0)
     (Vector3 (1014937 / 400000000) (- 2096663499 / 20000000000) 0) ''made'' (- 3 / 5) 1"
    by (rule inFlightWith_timeout_idle) simp
  then have "inFlightWith (animate (1 / 2) h)
     (Vector3 (51570311877 / 4000000000) (591196701511 / 200000000000) 0)
     (Vector3 (1014937 / 400000000) (- 2096663499 / 20000000000) 0) ''made'' (- 3 / 5) 1"
    by (simp add: animate_in_flight [OF h])
  moreover have "run distanceTo initialGameState (lateMake_session @ [Frame 0.6, Frame 0.5]) = animate (1 / 2) h"
  proof -
    have "lateMake_session @ [Frame 0.6, Frame 0.5] = (lateMake_session @ [Frame 0.6]) @ [Frame (1 / 2)]"
      by simp
    then show ?thesis
      unfolding h_def by (simp only: run_append) (simp add: run_def)
  qed
  ultimately show ?thesis
    by simp
qed

text \<open>
  C1 as stated fails in a session that starts from the initial state. After
  \<open>lateMake_session\<close> the only attempt is resolved as \<open>'missed'\<close> with no points; two
  frames later, within the same attempt, the ball falls through the right rim and the score
  is 2, one shot is made and the result is \<open>'made'\<close>.
\<close>

theorem late_make_from_start:
  "lastShotResult (run distanceTo initialGameState lateMake_session) = ''missed'' \<and>
   shotAttempts (run distanceTo initialGameState lateMake_session) = 1 \<and>
   score (run distanceTo initialGameState lateMake_session) = 0 \<and>
   shotsMade (run distanceTo initialGameState lateMake_session) = 0 \<and>
   shotAttempts (run distanceTo initialGameState (lateMake_session @ [Frame 0.6, Frame 0.5])) = 1 \<and>
   score (run distanceTo initialGameState (lateMake_session @ [Frame 0.6, Frame 0.5])) = 2 \<and>
   shotsMade (run distanceTo initialGameState (lateMake_session @ [Frame 0.6, Frame 0.5])) = 1 \<and>
   lastShotResult (run distanceTo initialGameState (lateMake_session @ [Frame 0.6, Frame 0.5])) = ''made''"
  using session_floor_bounce session_falls_into_rim
  by (simp add: inFlightWith_def)

end
